theory Spec2Isabelle
  imports Complex_Main "HOL-Library.AList" "HOL-Library.Log_Nat"
begin

section \<open>Paper-trading core of paradex-bot: data model\<close>

text \<open>
  The development embeds the three modules under \<^verbatim>\<open>src/app/paper_trading\<close>:
  \<^verbatim>\<open>order_simulator.py\<close> (class OrderSimulator), \<^verbatim>\<open>portfolio_tracker.py\<close>
  (class PortfolioTracker) and \<^verbatim>\<open>paper_exchange.py\<close> (class PaperTradingExchange).

  Conventions of the embedding.
  \<^item> A Python \<^verbatim>\<open>float\<close> is a \<^typ>\<open>real\<close>; NaN and the infinities do not exist. In
    \<^verbatim>\<open>_walk_order_book\<close>, which returns an accumulated sum where the specification names
    an input, every arithmetic operation rounds its exact result to binary64
    (\<open>round_double\<close>, below) and every decimal literal is the binary64 number nearest to
    it. In the other methods arithmetic is exact. A \<^verbatim>\<open>Decimal\<close> argument is converted by
    the source with \<^verbatim>\<open>float(...)\<close> before use and is therefore a \<^typ>\<open>real\<close> as well.
  \<^item> Python's \<^verbatim>\<open>/\<close> raises \<^verbatim>\<open>ZeroDivisionError\<close> on a zero divisor; every division of
    the source has that branch in the model.
  \<^item> A method that mutates \<^verbatim>\<open>self\<close> takes the state and returns the new one. When it
    raises, the mutations made before the raise stay: the error carries the state
    reached at the raise.
  \<^item> A \<^verbatim>\<open>dict\<close> is an association list in insertion order (\<^const>\<open>AList.update\<close>
    overwrites in place or appends, \<^const>\<open>AList.delete\<close> removes), which is the order
    Python iterates it in.
  \<^item> Logging and the optional CSV trade logger write to external sinks only and are
    left out. The \<^verbatim>\<open>created_at\<close> timestamps (\<^verbatim>\<open>datetime.now()\<close>) are left out too: no
    branch of the source reads them.
\<close>

datatype py_error = ZeroDivisionError

text \<open>
  Modelled from the spec: the enums \<^verbatim>\<open>GenericOrderSide\<close> (app/models/generic_order_side.py)
  and \<^verbatim>\<open>GenericPositionSide\<close> (app/models/generic_position_side.py) are imported by the
  source but their declarations are not part of it. The spec gives the two values of
  each: an order side is BUY or SELL, a position side is LONG or SHORT.
\<close>

datatype GenericOrderSide = BUY | SELL

datatype GenericPositionSide = LONG | SHORT

text \<open>
  Modelled from the spec: the classes \<^verbatim>\<open>DataOrder\<close> (app/models/data_order.py) and
  \<^verbatim>\<open>DataPosition\<close> (app/models/data_position.py) are imported by the source but their
  declarations are not part of it. The fields are the keyword arguments the source
  constructs them with (id, side, size, price; side, size, entry_price); the field names
  carry a prefix because \<open>id\<close> and \<open>size\<close> are constants of HOL. An instance is a plain
  data object, so \<^verbatim>\<open>if order:\<close> and \<^verbatim>\<open>if position:\<close> test for \<^verbatim>\<open>None\<close> only.
\<close>

record DataOrder =
  order_id :: string
  order_side :: GenericOrderSide
  order_size :: real
  order_price :: real

record DataPosition =
  pos_side :: GenericPositionSide
  pos_size :: real
  entry_price :: real

text \<open>The fields of \<^verbatim>\<open>PortfolioTracker.__init__\<close>.\<close>

record PortfolioTracker =
  initial_balance :: real
  balance :: real
  max_leverage :: int
  open_orders :: "(string \<times> DataOrder) list"
  open_positions :: "(GenericPositionSide \<times> DataPosition) list"
  total_trades :: int
  winning_trades :: int
  total_fees_paid :: real
  peak_balance :: real
  max_drawdown :: real

type_synonym order_book = "(real \<times> real) list"

type_synonym 'a raising = "(py_error \<times> PortfolioTracker) + 'a"

section \<open>Binary64 arithmetic\<close>

text \<open>
  A CPython \<^verbatim>\<open>float\<close> is an IEEE 754 binary64 number, and \<^verbatim>\<open>+\<close>, \<^verbatim>\<open>-\<close>, \<^verbatim>\<open>*\<close> and \<^verbatim>\<open>/\<close>
  on floats return the exact result rounded to the nearest binary64 number, a tie going
  to the even significand. \<open>round_double\<close> is that rounding: for x with
  2 ^ e \<le> |x| < 2 ^ (e + 1), where e is \<open>binary_exponent |x|\<close>, the quotient of x by
  2 ^ (e - 52) is rounded to the nearest integer, half to even, which leaves a
  significand of 53 bits. The exponent is not bounded: \<open>round_double\<close> is the machine's
  rounding for every result whose magnitude is 0 or lies between 2 ^ - 1022 and the
  largest binary64 number; overflow to an infinity and the subnormal numbers are outside
  the model. \<open>unit_roundoff\<close> is the bound 2 ^ - 53 on the relative error of one rounding.
\<close>

definition pow2 :: "int \<Rightarrow> real" where
  "pow2 e = (if 0 \<le> e then 2 ^ nat e else 1 / 2 ^ nat (- e))"

definition binary_exponent :: "real \<Rightarrow> int" where
  "binary_exponent x = (if 1 \<le> x then bitlen \<lfloor>x\<rfloor> - 1 else - bitlen (\<lceil>1 / x\<rceil> - 1))"

definition round_half_even :: "real \<Rightarrow> int" where
  "round_half_even y =
     (let n = \<lfloor>y\<rfloor>; d = y - real_of_int n
      in if d < 1 / 2 then n else if 1 / 2 < d then n + 1 else if even n then n else n + 1)"

definition round_double :: "real \<Rightarrow> real" where
  "round_double x =
     (if x = 0 then 0
      else
        (let e = binary_exponent \<bar>x\<bar> - 52
         in real_of_int (round_half_even (x / pow2 e)) * pow2 e))"


text \<open>The four operations of Python on floats.\<close>

definition fadd :: "real \<Rightarrow> real \<Rightarrow> real" where
  "fadd a b = round_double (a + b)"

definition fsub :: "real \<Rightarrow> real \<Rightarrow> real" where
  "fsub a b = round_double (a - b)"

definition fmul :: "real \<Rightarrow> real \<Rightarrow> real" where
  "fmul a b = round_double (a * b)"

definition fdiv :: "real \<Rightarrow> real \<Rightarrow> real" where
  "fdiv a b = round_double (a / b)"

section \<open>order\_simulator.py\<close>

definition MAKER_FEE_RATE :: real where
  "MAKER_FEE_RATE = - 0.0002"

definition TAKER_FEE_RATE :: real where
  "TAKER_FEE_RATE = 0.0005"

text \<open>
  \<^verbatim>\<open>simulate_fill_delay\<close>: the delay in milliseconds that is slept; \<open>jitter\<close> is the value
  drawn by \<^verbatim>\<open>random.randint(-20, 20)\<close>.
\<close>

definition simulate_fill_delay :: "int \<Rightarrow> int \<Rightarrow> int" where
  "simulate_fill_delay fill_delay_ms jitter = max (fill_delay_ms + jitter) 10"

text \<open>
  \<^verbatim>\<open>_get_available_liquidity\<close>: the loop over the levels with its accumulator
  \<^verbatim>\<open>total_liquidity\<close>; \<^verbatim>\<open>break\<close> returns the accumulator.
\<close>

fun available_loop :: "order_book \<Rightarrow> real \<Rightarrow> bool \<Rightarrow> real \<Rightarrow> real" where
  "available_loop [] price is_buy total_liquidity = total_liquidity"
| "available_loop ((level_price, level_size) # rest) price is_buy total_liquidity =
     (if is_buy then
        (if level_price \<le> price
         then available_loop rest price is_buy (total_liquidity + level_size)
         else total_liquidity)
      else
        (if level_price \<ge> price
         then available_loop rest price is_buy (total_liquidity + level_size)
         else total_liquidity))"

definition get_available_liquidity :: "order_book \<Rightarrow> real \<Rightarrow> bool \<Rightarrow> real" where
  "get_available_liquidity orders_list price is_buy = available_loop orders_list price is_buy 0"

text \<open>
  \<^verbatim>\<open>check_limit_order_fill\<close>: \<open>None\<close> is the source's \<^verbatim>\<open>return None\<close>, a fill is the
  triple (fill price, fill size, maker flag).
\<close>

definition check_limit_order_fill ::
  "DataOrder \<Rightarrow> real \<Rightarrow> real \<Rightarrow> order_book \<Rightarrow> order_book \<Rightarrow> (real \<times> real \<times> bool) option" where
  "check_limit_order_fill order bid_price ask_price buy_orders_list sell_orders_list =
     (if order_side order = BUY then
        (if ask_price \<le> order_price order then
           (let is_maker = order_price order < bid_price;
                fill_price = (if \<not> is_maker then min (order_price order) ask_price
                              else order_price order);
                available = get_available_liquidity sell_orders_list (order_price order) True;
                fill_sz = (if available < order_size order then available else order_size order)
            in if fill_sz > 0 then Some (fill_price, fill_sz, is_maker) else None)
         else None)
      else
        (if bid_price \<ge> order_price order then
           (let is_maker = order_price order > ask_price;
                fill_price = (if \<not> is_maker then max (order_price order) bid_price
                              else order_price order);
                available = get_available_liquidity buy_orders_list (order_price order) False;
                fill_sz = (if available < order_size order then available else order_size order)
            in if fill_sz > 0 then Some (fill_price, fill_sz, is_maker) else None)
         else None))"

text \<open>
  \<^verbatim>\<open>_walk_order_book\<close>. The \<^verbatim>\<open>for\<close> loop over \<^verbatim>\<open>orders_list[:10]\<close> is \<open>walk_loop\<close>, which
  returns the three loop variables (remaining size, total cost, total filled). Each
  \<^verbatim>\<open>+=\<close>, \<^verbatim>\<open>-=\<close>, \<^verbatim>\<open>*\<close> and \<^verbatim>\<open>/\<close> of the method is the rounded operation, the literals
  \<^verbatim>\<open>1.01\<close>, \<^verbatim>\<open>0.99\<close>, \<^verbatim>\<open>1.02\<close> and \<^verbatim>\<open>0.98\<close> are the binary64 numbers they denote, and
  \<^verbatim>\<open>min\<close> and the comparisons are exact, as they are on floats. The method returns the
  accumulator \<^verbatim>\<open>total_filled\<close> for a book with levels and \<^verbatim>\<open>size\<close> itself for an empty
  book.
\<close>

fun walk_loop :: "order_book \<Rightarrow> real \<Rightarrow> real \<Rightarrow> real \<Rightarrow> real \<times> real \<times> real" where
  "walk_loop [] remaining_size total_cost total_filled = (remaining_size, total_cost, total_filled)"
| "walk_loop ((level_price, level_size) # rest) remaining_size total_cost total_filled =
     (if remaining_size \<le> 0 then (remaining_size, total_cost, total_filled)
      else
        (let fill_at_level = min remaining_size level_size
         in walk_loop rest (fsub remaining_size fill_at_level)
              (fadd total_cost (fmul fill_at_level level_price))
              (fadd total_filled fill_at_level)))"

definition walk_order_book :: "order_book \<Rightarrow> real \<Rightarrow> real \<Rightarrow> bool \<Rightarrow> real \<times> real" where
  "walk_order_book orders_list sz starting_price is_buy =
     (if orders_list = [] then
        (let slippage_factor = (if is_buy then round_double 1.01 else round_double 0.99)
         in (fmul starting_price slippage_factor, sz))
      else
        (case walk_loop (take 10 orders_list) sz 0 0 of
           (remaining_size, total_cost, total_filled) \<Rightarrow>
             (let (total_cost', total_filled') =
                    (if remaining_size > 0 then
                       (let last_price = fst (orders_list ! (min 9 (length orders_list - 1)));
                            slippage_factor =
                              (if is_buy then round_double 1.02 else round_double 0.98);
                            remainder_price = fmul last_price slippage_factor
                        in (fadd total_cost (fmul remaining_size remainder_price),
                            fadd total_filled remaining_size))
                     else (total_cost, total_filled))
              in ((if total_filled' > 0 then fdiv total_cost' total_filled' else starting_price),
                  total_filled'))))"

definition simulate_market_order_fill ::
  "GenericOrderSide \<Rightarrow> real \<Rightarrow> real \<Rightarrow> real \<Rightarrow> order_book \<Rightarrow> order_book \<Rightarrow> real \<times> real" where
  "simulate_market_order_fill side sz bid_price ask_price buy_orders_list sell_orders_list =
     (if side = BUY then walk_order_book sell_orders_list sz ask_price True
      else walk_order_book buy_orders_list sz bid_price False)"

definition calculate_fee :: "real \<Rightarrow> real \<Rightarrow> bool \<Rightarrow> real" where
  "calculate_fee fill_price fill_sz is_maker =
     (let notional = fill_price * fill_sz;
          fee_rate = (if is_maker then MAKER_FEE_RATE else TAKER_FEE_RATE)
      in notional * fee_rate)"

definition calculate_realized_pnl :: "real \<Rightarrow> real \<Rightarrow> real \<Rightarrow> bool \<Rightarrow> real" where
  "calculate_realized_pnl entry exit_price sz is_long =
     (if is_long then (exit_price - entry) * sz else (entry - exit_price) * sz)"

section \<open>portfolio\_tracker.py\<close>

definition PortfolioTracker_init :: "real \<Rightarrow> int \<Rightarrow> PortfolioTracker" where
  "PortfolioTracker_init initial_bal max_lev =
     \<lparr>initial_balance = initial_bal, balance = initial_bal, max_leverage = max_lev,
      open_orders = [], open_positions = [], total_trades = 0, winning_trades = 0,
      total_fees_paid = 0, peak_balance = initial_bal, max_drawdown = 0\<rparr>"

definition add_order :: "PortfolioTracker \<Rightarrow> DataOrder \<Rightarrow> PortfolioTracker" where
  "add_order s order = s\<lparr>open_orders := AList.update (order_id order) order (open_orders s)\<rparr>"

text \<open>\<^verbatim>\<open>remove_order\<close> pops the key: it returns the order (or \<open>None\<close>) and the new state.\<close>

definition remove_order :: "PortfolioTracker \<Rightarrow> string \<Rightarrow> DataOrder option \<times> PortfolioTracker" where
  "remove_order s oid =
     (map_of (open_orders s) oid, s\<lparr>open_orders := AList.delete oid (open_orders s)\<rparr>)"

definition get_order :: "PortfolioTracker \<Rightarrow> string \<Rightarrow> DataOrder option" where
  "get_order s oid = map_of (open_orders s) oid"

definition update_position ::
  "PortfolioTracker \<Rightarrow> GenericPositionSide \<Rightarrow> real \<Rightarrow> real \<Rightarrow> real \<Rightarrow> PortfolioTracker" where
  "update_position s side sz entry realized_pnl =
     (let s1 =
            (if sz = 0 then
               (if side \<in> set (map fst (open_positions s))
                then s\<lparr>open_positions := AList.delete side (open_positions s)\<rparr>
                else s)
             else
               (let position = \<lparr>pos_side = side, pos_size = sz, entry_price = entry\<rparr>
                in s\<lparr>open_positions := AList.update side position (open_positions s)\<rparr>))
      in if realized_pnl \<noteq> 0 then s1\<lparr>balance := balance s1 + realized_pnl\<rparr> else s1)"

definition apply_fee :: "PortfolioTracker \<Rightarrow> real \<Rightarrow> PortfolioTracker" where
  "apply_fee s fee_amount =
     s\<lparr>balance := balance s - fee_amount, total_fees_paid := total_fees_paid s + fee_amount\<rparr>"

definition get_position :: "PortfolioTracker \<Rightarrow> GenericPositionSide \<Rightarrow> DataPosition option" where
  "get_position s side = map_of (open_positions s) side"

text \<open>
  The two \<^verbatim>\<open>for position in self.open_positions.values()\<close> loops, each with its
  accumulator.
\<close>

fun total_value_loop :: "DataPosition list \<Rightarrow> real \<Rightarrow> real \<Rightarrow> real" where
  "total_value_loop [] mark total_value = total_value"
| "total_value_loop (position # rest) mark total_value =
     total_value_loop rest mark (total_value + \<bar>pos_size position\<bar> * mark)"

definition get_total_position_value :: "PortfolioTracker \<Rightarrow> real \<Rightarrow> real" where
  "get_total_position_value s mark = total_value_loop (map snd (open_positions s)) mark 0"

fun total_pnl_loop :: "DataPosition list \<Rightarrow> real \<Rightarrow> real \<Rightarrow> real" where
  "total_pnl_loop [] mark total_pnl = total_pnl"
| "total_pnl_loop (position # rest) mark total_pnl =
     (let pnl = (if pos_side position = LONG
                 then (mark - entry_price position) * pos_size position
                 else (entry_price position - mark) * pos_size position)
      in total_pnl_loop rest mark (total_pnl + pnl))"

definition get_unrealized_pnl :: "PortfolioTracker \<Rightarrow> real \<Rightarrow> real" where
  "get_unrealized_pnl s mark = total_pnl_loop (map snd (open_positions s)) mark 0"

definition get_equity :: "PortfolioTracker \<Rightarrow> real \<Rightarrow> real" where
  "get_equity s mark = balance s + get_unrealized_pnl s mark"

text \<open>
  \<^verbatim>\<open>can_open_position\<close> is a query. Its two divisions are by \<^verbatim>\<open>self.max_leverage\<close>, an
  \<^verbatim>\<open>int\<close>; the first one raises when the leverage is 0.
\<close>

definition can_open_position :: "PortfolioTracker \<Rightarrow> real \<Rightarrow> real \<Rightarrow> real \<Rightarrow> py_error + bool" where
  "can_open_position s sz price mark =
     (let notional_value = sz * price
      in if max_leverage s = 0 then Inl ZeroDivisionError
         else
           (let required_margin = notional_value / real_of_int (max_leverage s);
                equity = get_equity s mark;
                position_value = get_total_position_value s mark;
                used_margin = position_value / real_of_int (max_leverage s);
                available_margin = equity - used_margin
            in Inr (available_margin \<ge> required_margin)))"

text \<open>
  \<^verbatim>\<open>record_trade\<close>: the counters and the peak are updated before the division by the
  peak, so a raise leaves them updated.
\<close>

definition record_trade :: "PortfolioTracker \<Rightarrow> bool \<Rightarrow> PortfolioTracker raising" where
  "record_trade s profitable =
     (let s1 = s\<lparr>total_trades := total_trades s + 1\<rparr>;
          s2 = (if profitable then s1\<lparr>winning_trades := winning_trades s1 + 1\<rparr> else s1);
          s3 = (if balance s2 > peak_balance s2 then s2\<lparr>peak_balance := balance s2\<rparr> else s2)
      in if peak_balance s3 = 0 then Inl (ZeroDivisionError, s3)
         else
           (let current_drawdown = (peak_balance s3 - balance s3) / peak_balance s3
            in Inr (if current_drawdown > max_drawdown s3
                    then s3\<lparr>max_drawdown := current_drawdown\<rparr> else s3)))"

section \<open>paper\_exchange.py\<close>

text \<open>
  The methods of \<^verbatim>\<open>PaperTradingExchange\<close> modelled here read and write
  \<^verbatim>\<open>self.portfolio\<close> only, so they are functions on the portfolio state. The simulator
  is stateless apart from its configured \<^verbatim>\<open>fill_delay_ms\<close>, which is a parameter.

  Modelled from the spec: the wrapped \<^verbatim>\<open>real_exchange\<close> (app/exchanges/base_exchange.py)
  is not part of the source. The spec describes it as a read-only market-data provider:
  the bid levels and the ask levels as sequences of (price, size), best price first, and
  a mark price that may be absent. A snapshot of it is a \<open>market_data\<close> record.
\<close>

record market_data =
  buy_orders_list :: order_book
  sell_orders_list :: order_book
  mark_price :: "real option"

text \<open>
  An \<^verbatim>\<open>async\<close> method is a coroutine: it runs to its next \<^verbatim>\<open>await asyncio.sleep\<close>, where
  it is suspended, or to its return (or raise). \<open>Sleep d s k\<close> is a coroutine suspended
  for \<open>d\<close> seconds with the portfolio in state \<open>s\<close>; when it is resumed it reads the
  portfolio and the market data as they are then, which are the arguments of the
  continuation \<open>k\<close>. The local variables stay captured in \<open>k\<close>.
\<close>

datatype 'a coroutine =
  Return "('a \<times> PortfolioTracker) raising"
| Sleep real PortfolioTracker "PortfolioTracker \<Rightarrow> market_data \<Rightarrow> 'a coroutine"

text \<open>The portfolio as it stands while the coroutine sleeps, and the resumption.\<close>

primrec suspended_state :: "'a coroutine \<Rightarrow> PortfolioTracker option" where
  "suspended_state (Return r) = None"
| "suspended_state (Sleep d s k) = Some s"

primrec slept_seconds :: "'a coroutine \<Rightarrow> real option" where
  "slept_seconds (Return r) = None"
| "slept_seconds (Sleep d s k) = Some d"

primrec resume :: "'a coroutine \<Rightarrow> PortfolioTracker \<Rightarrow> market_data \<Rightarrow> 'a coroutine" where
  "resume (Return r) s' m' = Return r"
| "resume (Sleep d s k) s' m' = k s' m'"

text \<open>
  Running a coroutine with nothing else touching the portfolio or the market while it
  sleeps.
\<close>

primrec run_alone :: "market_data \<Rightarrow> 'a coroutine \<Rightarrow> ('a \<times> PortfolioTracker) raising" where
  "run_alone m (Return r) = r"
| "run_alone m (Sleep d s k) = run_alone m (k s m)"

text \<open>The delay awaited by \<^verbatim>\<open>simulate_fill_delay\<close>, in seconds.\<close>

definition fill_delay_seconds :: "int \<Rightarrow> int \<Rightarrow> real" where
  "fill_delay_seconds fill_delay_ms jitter =
     real_of_int (simulate_fill_delay fill_delay_ms jitter) / 1000"

definition modify_limit_order ::
  "PortfolioTracker \<Rightarrow> string \<Rightarrow> GenericOrderSide \<Rightarrow> real \<Rightarrow> real \<Rightarrow> bool
     \<Rightarrow> DataOrder option \<times> PortfolioTracker" where
  "modify_limit_order s oid side sz price is_reduce =
     (case remove_order s oid of
        (None, s1) \<Rightarrow> (None, s1)
      | (Some old_order, s1) \<Rightarrow>
          (let new_order = \<lparr>order_id = oid, order_side = side, order_size = sz, order_price = price\<rparr>
           in (Some new_order, add_order s1 new_order)))"

text \<open>
  \<^verbatim>\<open>open_limit_order\<close>; \<open>new_id\<close> is the identifier the source builds from
  \<^verbatim>\<open>uuid.uuid4()\<close>. A \<^verbatim>\<open>Decimal\<close> mark price is false when it is \<^verbatim>\<open>None\<close> or zero.
\<close>

definition open_limit_order ::
  "PortfolioTracker \<Rightarrow> market_data \<Rightarrow> string \<Rightarrow> GenericOrderSide \<Rightarrow> real \<Rightarrow> real \<Rightarrow> bool
     \<Rightarrow> (DataOrder option \<times> PortfolioTracker) raising" where
  "open_limit_order s m new_id side sz price is_reduce =
     (case (if \<not> is_reduce then
              (let mark_price_float =
                     (case mark_price m of
                        None \<Rightarrow> price
                      | Some mp \<Rightarrow> if mp \<noteq> 0 then mp else price)
               in can_open_position s sz price mark_price_float)
            else Inr True) of
        Inl e \<Rightarrow> Inl (e, s)
      | Inr can_open \<Rightarrow>
          if \<not> can_open then Inr (None, s)
          else
            (let order = \<lparr>order_id = new_id, order_side = side, order_size = sz, order_price = price\<rparr>
             in Inr (Some order, add_order s order)))"

text \<open>
  \<^verbatim>\<open>_process_fill\<close>, in its two blocks. \<open>close_opposite\<close> is the block under
  \<^verbatim>\<open>if opposite_position:\<close>; it returns the state and the fill size that remains.
  \<open>open_or_add\<close> is the block under \<^verbatim>\<open>if fill_size > 0:\<close>; the average entry price
  divides by the new total size.
\<close>

definition close_opposite ::
  "PortfolioTracker \<Rightarrow> GenericPositionSide \<Rightarrow> DataPosition option \<Rightarrow> real \<Rightarrow> real
     \<Rightarrow> (PortfolioTracker \<times> real) raising" where
  "close_opposite s opposite_side opposite_position fill_price fill_sz =
     (case opposite_position of
        None \<Rightarrow> Inr (s, fill_sz)
      | Some opp \<Rightarrow>
          (let close_size = min fill_sz (pos_size opp);
               is_long_close = (opposite_side = LONG);
               realized_pnl =
                 calculate_realized_pnl (entry_price opp) fill_price close_size is_long_close;
               new_size = pos_size opp - close_size;
               s1 = update_position s opposite_side new_size (entry_price opp) realized_pnl
           in case record_trade s1 (realized_pnl > 0) of
                Inl e \<Rightarrow> Inl e
              | Inr s2 \<Rightarrow> Inr (s2, fill_sz - close_size)))"

definition open_or_add ::
  "PortfolioTracker \<Rightarrow> GenericPositionSide \<Rightarrow> DataPosition option \<Rightarrow> real \<Rightarrow> real
     \<Rightarrow> PortfolioTracker raising" where
  "open_or_add s position_side current_position fill_price fill_sz =
     (if fill_sz > 0 then
        (case current_position of
           Some cur \<Rightarrow>
             (let total_size = pos_size cur + fill_sz
              in if total_size = 0 then Inl (ZeroDivisionError, s)
                 else
                   (let avg_entry =
                          (entry_price cur * pos_size cur + fill_price * fill_sz) / total_size
                    in Inr (update_position s position_side total_size avg_entry 0)))
         | None \<Rightarrow> Inr (update_position s position_side fill_sz fill_price 0))
      else Inr s)"

definition process_fill ::
  "PortfolioTracker \<Rightarrow> GenericOrderSide \<Rightarrow> real \<Rightarrow> real \<Rightarrow> bool \<Rightarrow> PortfolioTracker raising" where
  "process_fill s side fill_price fill_sz is_maker =
     (let position_side = (if side = BUY then LONG else SHORT);
          opposite_side = (if side = BUY then SHORT else LONG);
          opposite_position = get_position s opposite_side;
          current_position = get_position s position_side
      in case close_opposite s opposite_side opposite_position fill_price fill_sz of
           Inl e \<Rightarrow> Inl e
         | Inr (s2, fill_sz') \<Rightarrow> open_or_add s2 position_side current_position fill_price fill_sz')"

text \<open>
  \<^verbatim>\<open>open_market_order\<close>. The best bid and ask are read before the delay, the book levels
  that are walked after it. The returned fill is (side, size, price, fee).
  \<open>market_order_after_delay\<close> is the part of the method after
  \<^verbatim>\<open>await self.simulator.simulate_fill_delay()\<close>.
\<close>

definition best_price :: "order_book \<Rightarrow> real option" where
  "best_price levels = (case levels of [] \<Rightarrow> None | l # rest \<Rightarrow> Some (fst l))"

definition market_order_after_delay ::
  "GenericOrderSide \<Rightarrow> real \<Rightarrow> real \<Rightarrow> real \<Rightarrow> PortfolioTracker \<Rightarrow> market_data
     \<Rightarrow> (GenericOrderSide \<times> real \<times> real \<times> real) option coroutine" where
  "market_order_after_delay side sz bid_price ask_price s' m' =
     (case simulate_market_order_fill side sz bid_price ask_price
             (buy_orders_list m') (sell_orders_list m') of
        (fill_price, fill_sz) \<Rightarrow>
          (let fee = calculate_fee fill_price fill_sz False;
               s1 = apply_fee s' fee
           in case process_fill s1 side fill_price fill_sz False of
                Inl e \<Rightarrow> Return (Inl e)
              | Inr s2 \<Rightarrow> Return (Inr (Some (side, fill_sz, fill_price, fee), s2))))"

definition open_market_order ::
  "PortfolioTracker \<Rightarrow> market_data \<Rightarrow> int \<Rightarrow> int \<Rightarrow> GenericOrderSide \<Rightarrow> real \<Rightarrow> bool
     \<Rightarrow> (GenericOrderSide \<times> real \<times> real \<times> real) option coroutine" where
  "open_market_order s m fill_delay_ms jitter side sz is_reduce =
     (case (best_price (buy_orders_list m), best_price (sell_orders_list m)) of
        (Some bid_price, Some ask_price) \<Rightarrow>
          if bid_price = 0 \<or> ask_price = 0 then Return (Inr (None, s))
          else
            (case (if \<not> is_reduce then
                     (let mark_price_float =
                            (case mark_price m of
                               None \<Rightarrow> (bid_price + ask_price) / 2
                             | Some mp \<Rightarrow> if mp \<noteq> 0 then mp else (bid_price + ask_price) / 2)
                      in can_open_position s sz (if side = BUY then ask_price else bid_price)
                           mark_price_float)
                   else Inr True) of
               Inl e \<Rightarrow> Return (Inl (e, s))
             | Inr can_open \<Rightarrow>
                 if \<not> can_open then Return (Inr (None, s))
                 else
                   Sleep (fill_delay_seconds fill_delay_ms jitter) s
                     (market_order_after_delay side sz bid_price ask_price))
      | _ \<Rightarrow> Return (Inr (None, s)))"

text \<open>
  \<^verbatim>\<open>_monitor_orders\<close>, one iteration of its \<^verbatim>\<open>while\<close> loop. \<open>collect_fills\<close> is the
  first \<^verbatim>\<open>for\<close> loop (it builds \<^verbatim>\<open>orders_to_fill\<close>), \<open>fill_order\<close> is the body of the
  second one (\<open>fill_order_after_delay\<close> is the part of the body after its
  \<^verbatim>\<open>await self.simulator.simulate_fill_delay()\<close>), \<open>then_do\<close> sequences two coroutines,
  and \<open>process_fills\<close> is the second loop followed by the poll sleep of 50 ms.
  \<open>jitter i\<close> is the random jitter of the i-th fill delay. An exception leaves the loop
  for the handler; the handler's cool-down sleep and the next iteration are not modelled.
\<close>

fun collect_fills ::
  "DataOrder list \<Rightarrow> real \<Rightarrow> real \<Rightarrow> order_book \<Rightarrow> order_book
     \<Rightarrow> (DataOrder \<times> real \<times> real \<times> bool) list" where
  "collect_fills [] bid_price ask_price buys sells = []"
| "collect_fills (order # rest) bid_price ask_price buys sells =
     (case check_limit_order_fill order bid_price ask_price buys sells of
        Some fill_result \<Rightarrow> (order, fill_result) # collect_fills rest bid_price ask_price buys sells
      | None \<Rightarrow> collect_fills rest bid_price ask_price buys sells)"

definition fill_order_after_delay ::
  "DataOrder \<Rightarrow> real \<Rightarrow> real \<Rightarrow> bool \<Rightarrow> PortfolioTracker \<Rightarrow> market_data \<Rightarrow> unit coroutine" where
  "fill_order_after_delay order fill_price fill_sz is_maker s' m' =
     (case process_fill s' (order_side order) fill_price fill_sz is_maker of
        Inl e \<Rightarrow> Return (Inl e)
      | Inr s3 \<Rightarrow> Return (Inr ((), s3)))"

definition fill_order ::
  "PortfolioTracker \<Rightarrow> int \<Rightarrow> int \<Rightarrow> DataOrder \<Rightarrow> real \<Rightarrow> real \<Rightarrow> bool \<Rightarrow> unit coroutine" where
  "fill_order s fill_delay_ms jitter order fill_price fill_sz is_maker =
     (let s1 = snd (remove_order s (order_id order));
          fee = calculate_fee fill_price fill_sz is_maker;
          s2 = apply_fee s1 fee
      in Sleep (fill_delay_seconds fill_delay_ms jitter) s2
           (fill_order_after_delay order fill_price fill_sz is_maker))"

primrec then_do ::
  "unit coroutine \<Rightarrow> (PortfolioTracker \<Rightarrow> unit coroutine) \<Rightarrow> unit coroutine" where
  "then_do (Return r) f = (case r of Inl e \<Rightarrow> Return (Inl e) | Inr (u, s) \<Rightarrow> f s)"
| "then_do (Sleep d s k) f = Sleep d s (\<lambda>s' m'. then_do (k s' m') f)"

fun process_fills ::
  "(DataOrder \<times> real \<times> real \<times> bool) list \<Rightarrow> int \<Rightarrow> (nat \<Rightarrow> int) \<Rightarrow> nat \<Rightarrow> PortfolioTracker
     \<Rightarrow> unit coroutine" where
  "process_fills [] fill_delay_ms jitter i s = Sleep 0.05 s (\<lambda>s' m'. Return (Inr ((), s')))"
| "process_fills ((order, fill_price, fill_sz, is_maker) # rest) fill_delay_ms jitter i s =
     then_do (fill_order s fill_delay_ms (jitter i) order fill_price fill_sz is_maker)
       (process_fills rest fill_delay_ms jitter (Suc i))"

definition monitor_iteration ::
  "PortfolioTracker \<Rightarrow> market_data \<Rightarrow> int \<Rightarrow> (nat \<Rightarrow> int) \<Rightarrow> unit coroutine" where
  "monitor_iteration s m fill_delay_ms jitter =
     (case (best_price (buy_orders_list m), best_price (sell_orders_list m)) of
        (Some bid_price, Some ask_price) \<Rightarrow>
          process_fills
            (collect_fills (map snd (open_orders s)) bid_price ask_price
               (buy_orders_list m) (sell_orders_list m))
            fill_delay_ms jitter 0 s
      | _ \<Rightarrow> Sleep 0.1 s (\<lambda>s' m'. Return (Inr ((), s'))))"

definition cancel_all_orders :: "PortfolioTracker \<Rightarrow> PortfolioTracker" where
  "cancel_all_orders s = s\<lparr>open_orders := []\<rparr>"

section \<open>Statements of the specification, for comparison\<close>

text \<open>
  The liquidity at or better than a limit price, in the spec's words: the sizes of the
  levels, in list order, up to the first level that fails the threshold (price at most
  the limit for a buy, at least the limit for a sell).
\<close>

definition liquidity_at_or_better :: "order_book \<Rightarrow> real \<Rightarrow> bool \<Rightarrow> real" where
  "liquidity_at_or_better levels price is_buy =
     sum_list (map snd (takeWhile (\<lambda>(p, q). if is_buy then p \<le> price else p \<ge> price) levels))"











text \<open>
  The unrealized PnL of one position at a mark price, and the notional of one position,
  in the spec's words.
\<close>

definition position_pnl :: "real \<Rightarrow> DataPosition \<Rightarrow> real" where
  "position_pnl mark p =
     (if pos_side p = LONG then (mark - entry_price p) * pos_size p
      else (entry_price p - mark) * pos_size p)"

definition position_notional :: "real \<Rightarrow> DataPosition \<Rightarrow> real" where
  "position_notional mark p = \<bar>pos_size p\<bar> * mark"

text \<open>
  Sequences of portfolio operations. An operation is a call of one of the mutating methods
  of \<^verbatim>\<open>PortfolioTracker\<close> or of one of the order-facing methods of
  \<^verbatim>\<open>PaperTradingExchange\<close>; \<open>apply_op\<close> gives the state the call leaves behind, also when
  it raises (\<open>state_after\<close>, \<open>outcome_state\<close>). A coroutine is run with nothing else
  interleaved. \<open>closes_trades\<close> marks the operations that can reach \<^verbatim>\<open>record_trade\<close>.
\<close>

definition state_after :: "PortfolioTracker raising \<Rightarrow> PortfolioTracker" where
  "state_after r = (case r of Inl (e, s) \<Rightarrow> s | Inr s \<Rightarrow> s)"

definition outcome_state :: "('a \<times> PortfolioTracker) raising \<Rightarrow> PortfolioTracker" where
  "outcome_state r = (case r of Inl (e, s) \<Rightarrow> s | Inr (x, s) \<Rightarrow> s)"

datatype portfolio_op =
  Add_order DataOrder
| Remove_order string
| Update_position GenericPositionSide real real real
| Apply_fee real
| Record_trade bool
| Cancel_all_orders
| Modify_limit_order string GenericOrderSide real real bool
| Open_limit_order market_data string GenericOrderSide real real bool
| Process_fill GenericOrderSide real real bool
| Open_market_order market_data int int GenericOrderSide real bool
| Monitor_iteration market_data int "nat \<Rightarrow> int"

fun apply_op :: "PortfolioTracker \<Rightarrow> portfolio_op \<Rightarrow> PortfolioTracker" where
  "apply_op s (Add_order order) = add_order s order"
| "apply_op s (Remove_order oid) = snd (remove_order s oid)"
| "apply_op s (Update_position side sz entry pnl) = update_position s side sz entry pnl"
| "apply_op s (Apply_fee fee) = apply_fee s fee"
| "apply_op s (Record_trade profitable) = state_after (record_trade s profitable)"
| "apply_op s Cancel_all_orders = cancel_all_orders s"
| "apply_op s (Modify_limit_order oid side sz price is_reduce) =
     snd (modify_limit_order s oid side sz price is_reduce)"
| "apply_op s (Open_limit_order m new_id side sz price is_reduce) =
     outcome_state (open_limit_order s m new_id side sz price is_reduce)"
| "apply_op s (Process_fill side fill_price fill_sz is_maker) =
     state_after (process_fill s side fill_price fill_sz is_maker)"
| "apply_op s (Open_market_order m fill_delay_ms jitter side sz is_reduce) =
     outcome_state (run_alone m (open_market_order s m fill_delay_ms jitter side sz is_reduce))"
| "apply_op s (Monitor_iteration m fill_delay_ms jitter) =
     outcome_state (run_alone m (monitor_iteration s m fill_delay_ms jitter))"

fun closes_trades :: "portfolio_op \<Rightarrow> bool" where
  "closes_trades (Record_trade profitable) = True"
| "closes_trades (Process_fill side fill_price fill_sz is_maker) = True"
| "closes_trades (Open_market_order m fill_delay_ms jitter side sz is_reduce) = True"
| "closes_trades (Monitor_iteration m fill_delay_ms jitter) = True"
| "closes_trades op = False"

definition drawdown_le :: "PortfolioTracker \<Rightarrow> PortfolioTracker \<Rightarrow> bool" where
  "drawdown_le s s' \<longleftrightarrow>
     peak_balance s \<le> peak_balance s' \<and> max_drawdown s \<le> max_drawdown s'"

section \<open>Lemmas\<close>

subsection \<open>The accumulator loops\<close>

lemma available_loop_acc:
  "available_loop levels price is_buy acc = acc + liquidity_at_or_better levels price is_buy"
  by (induction levels arbitrary: acc) (auto simp: liquidity_at_or_better_def)

lemma get_available_liquidity_eq:
  "get_available_liquidity levels price is_buy = liquidity_at_or_better levels price is_buy"
  by (simp add: get_available_liquidity_def available_loop_acc)

lemma total_value_loop_acc:
  "total_value_loop ps mark acc = acc + sum_list (map (position_notional mark) ps)"
  by (induction ps arbitrary: acc) (simp_all add: position_notional_def)

lemma total_pnl_loop_acc:
  "total_pnl_loop ps mark acc = acc + sum_list (map (position_pnl mark) ps)"
  by (induction ps arbitrary: acc) (simp_all add: position_pnl_def Let_def)

subsection \<open>Resting orders\<close>

lemma delete_absent: "map_of al k = None \<Longrightarrow> AList.delete k al = al"
  by (induction al) (auto split: if_splits)

lemma update_after_delete: "AList.update k v (AList.delete k al) = AList.delete k al @ [(k, v)]"
  by (induction al) auto

lemma modify_limit_order_present:
  "map_of (open_orders s) oid \<noteq> None \<Longrightarrow>
   modify_limit_order s oid side sz price is_reduce =
     (Some \<lparr>order_id = oid, order_side = side, order_size = sz, order_price = price\<rparr>,
      s\<lparr>open_orders := AList.delete oid (open_orders s)
           @ [(oid, \<lparr>order_id = oid, order_side = side, order_size = sz,
                      order_price = price\<rparr>)]\<rparr>)"
  by (auto simp: modify_limit_order_def remove_order_def add_order_def update_after_delete Let_def)

lemma modify_limit_order_absent:
  "map_of (open_orders s) oid = None \<Longrightarrow>
   modify_limit_order s oid side sz price is_reduce = (None, s)"
  by (simp add: modify_limit_order_def remove_order_def delete_absent)

lemma modify_limit_order_lookup:
  "map_of (open_orders s) oid \<noteq> None \<Longrightarrow>
   map_of (open_orders (snd (modify_limit_order s oid side sz price is_reduce))) =
     (map_of (open_orders s))
       (oid \<mapsto> \<lparr>order_id = oid, order_side = side, order_size = sz, order_price = price\<rparr>)"
  by (auto simp: modify_limit_order_def remove_order_def add_order_def update_conv' delete_conv'
      Let_def)

subsection \<open>Position updates and trade records\<close>

lemma get_position_update_same:
  "get_position (update_position s side sz entry pnl) side =
     (if sz = 0 then None else Some \<lparr>pos_side = side, pos_size = sz, entry_price = entry\<rparr>)"
proof (cases "sz = 0")
  case True
  show ?thesis
  proof (cases "side \<in> set (map fst (open_positions s))")
    case True
    with \<open>sz = 0\<close> show ?thesis
      by (simp add: get_position_def update_position_def Let_def delete_conv')
  next
    case False
    then have "map_of (open_positions s) side = None"
      by (simp add: map_of_eq_None_iff)
    with False \<open>sz = 0\<close> show ?thesis
      by (simp add: get_position_def update_position_def Let_def)
  qed
next
  case False
  then show ?thesis
    by (simp add: get_position_def update_position_def Let_def update_conv')
qed

lemma get_position_update_other:
  "side' \<noteq> side \<Longrightarrow>
   get_position (update_position s side sz entry pnl) side' = get_position s side'"
  by (auto simp: get_position_def update_position_def Let_def update_conv' delete_conv')

lemma update_position_fields:
  "balance (update_position s side sz entry pnl) = balance s + pnl"
  "total_trades (update_position s side sz entry pnl) = total_trades s"
  "winning_trades (update_position s side sz entry pnl) = winning_trades s"
  "peak_balance (update_position s side sz entry pnl) = peak_balance s"
  "max_drawdown (update_position s side sz entry pnl) = max_drawdown s"
  "open_orders (update_position s side sz entry pnl) = open_orders s"
  "total_fees_paid (update_position s side sz entry pnl) = total_fees_paid s"
  by (simp_all add: update_position_def Let_def)

lemma record_trade_returns:
  "max (peak_balance s) (balance s) \<noteq> 0 \<Longrightarrow> \<exists>s'. record_trade s profitable = Inr s'"
  by (auto simp: record_trade_def Let_def max_def split: if_splits)

lemma record_trade_raises:
  "max (peak_balance s) (balance s) = 0 \<Longrightarrow>
   \<exists>s'. record_trade s profitable = Inl (ZeroDivisionError, s')
     \<and> total_trades s' = total_trades s + 1 \<and> max_drawdown s' = max_drawdown s"
  by (auto simp: record_trade_def Let_def max_def split: if_splits)

lemma record_trade_fields:
  assumes "record_trade s profitable = Inr s'"
  shows "balance s' = balance s" "open_positions s' = open_positions s"
    "total_trades s' = total_trades s + 1"
    "winning_trades s' = winning_trades s + (if profitable then 1 else 0)"
    "peak_balance s' = max (peak_balance s) (balance s)"
    "max_drawdown s' = max (max_drawdown s) ((peak_balance s' - balance s) / peak_balance s')"
    "open_orders s' = open_orders s" "total_fees_paid s' = total_fees_paid s"
  using assms by (auto simp: record_trade_def Let_def max_def split: if_splits)


lemma close_opposite_Some:
  fixes s oside opp fill_price fill_sz
  defines "close \<equiv> min fill_sz (pos_size opp)"
  defines "pnl \<equiv> calculate_realized_pnl (entry_price opp) fill_price close (oside = LONG)"
  assumes peak_ok: "max (peak_balance s) (balance s + pnl) \<noteq> 0"
  shows "\<exists>s2. close_opposite s oside (Some opp) fill_price fill_sz = Inr (s2, fill_sz - close)
    \<and> balance s2 = balance s + pnl
    \<and> get_position s2 oside =
        (if pos_size opp - close = 0 then None
         else Some \<lparr>pos_side = oside, pos_size = pos_size opp - close,
                     entry_price = entry_price opp\<rparr>)
    \<and> (\<forall>side'. side' \<noteq> oside \<longrightarrow> get_position s2 side' = get_position s side')
    \<and> total_trades s2 = total_trades s + 1
    \<and> winning_trades s2 = winning_trades s + (if pnl > 0 then 1 else 0)"
proof -
  let ?s1 = "update_position s oside (pos_size opp - close) (entry_price opp) pnl"
  have "max (peak_balance ?s1) (balance ?s1) \<noteq> 0"
    using peak_ok by (simp add: update_position_fields)
  then obtain s2 where s2: "record_trade ?s1 (pnl > 0) = Inr s2"
    using record_trade_returns by blast
  have run: "close_opposite s oside (Some opp) fill_price fill_sz = Inr (s2, fill_sz - close)"
    using s2 by (simp add: close_opposite_def Let_def close_def pnl_def)
  have pos: "get_position s2 side' = get_position ?s1 side'" for side'
    using record_trade_fields(2) [OF s2] by (simp add: get_position_def)
  show ?thesis
    using run record_trade_fields(1,3,4) [OF s2] pos
    by (simp add: update_position_fields get_position_update_same get_position_update_other)
qed

lemma open_or_add_nothing:
  "\<not> fill_sz > 0 \<Longrightarrow> open_or_add s pside cur fill_price fill_sz = Inr s"
  by (simp add: open_or_add_def)

lemma open_or_add_fresh:
  "fill_sz > 0 \<Longrightarrow>
   open_or_add s pside None fill_price fill_sz = Inr (update_position s pside fill_sz fill_price 0)"
  by (simp add: open_or_add_def)

lemma open_or_add_existing:
  "fill_sz > 0 \<Longrightarrow> pos_size c + fill_sz \<noteq> 0 \<Longrightarrow>
   open_or_add s pside (Some c) fill_price fill_sz =
     Inr (update_position s pside (pos_size c + fill_sz)
            ((entry_price c * pos_size c + fill_price * fill_sz) / (pos_size c + fill_sz)) 0)"
  by (simp add: open_or_add_def Let_def)

lemma open_or_add_effect:
  assumes "\<And>c. cur = Some c \<Longrightarrow> fill_sz > 0 \<Longrightarrow> pos_size c + fill_sz \<noteq> 0"
  shows "\<exists>s'. open_or_add s pside cur fill_price fill_sz = Inr s'
    \<and> balance s' = balance s
    \<and> total_trades s' = total_trades s
    \<and> winning_trades s' = winning_trades s
    \<and> (\<forall>side'. side' \<noteq> pside \<longrightarrow> get_position s' side' = get_position s side')
    \<and> get_position s' pside =
        (if fill_sz > 0 then
           (case cur of
              None \<Rightarrow> Some \<lparr>pos_side = pside, pos_size = fill_sz, entry_price = fill_price\<rparr>
            | Some c \<Rightarrow>
                Some \<lparr>pos_side = pside, pos_size = pos_size c + fill_sz,
                       entry_price = (pos_size c * entry_price c + fill_sz * fill_price)
                                       / (pos_size c + fill_sz)\<rparr>)
         else get_position s pside)"
proof (cases "fill_sz > 0")
  case False
  then show ?thesis by (simp add: open_or_add_nothing)
next
  case True
  show ?thesis
  proof (cases cur)
    case None
    with True show ?thesis
      by (simp add: open_or_add_fresh update_position_fields get_position_update_same
          get_position_update_other)
  next
    case (Some c)
    with True assms have "pos_size c + fill_sz \<noteq> 0" by blast
    with True Some show ?thesis
      by (simp add: open_or_add_existing update_position_fields get_position_update_same
          get_position_update_other mult.commute)
  qed
qed


subsection \<open>Peak balance and drawdown along the operations\<close>

lemma drawdown_le_refl: "drawdown_le s s"
  by (simp add: drawdown_le_def)

lemma drawdown_le_trans: "drawdown_le s t \<Longrightarrow> drawdown_le t u \<Longrightarrow> drawdown_le s u"
  by (auto simp: drawdown_le_def)

lemma record_trade_drawdown_le: "drawdown_le s (state_after (record_trade s profitable))"
  by (auto simp: drawdown_le_def state_after_def record_trade_def Let_def)

lemma update_position_drawdown_le: "drawdown_le s (update_position s side sz entry pnl)"
  by (simp add: drawdown_le_def update_position_fields)

lemma apply_fee_drawdown_le: "drawdown_le s (apply_fee s fee)"
  by (simp add: drawdown_le_def apply_fee_def)

lemma close_opposite_drawdown_le:
  "close_opposite s oside opp fill_price fill_sz = Inl (e, s') \<Longrightarrow> drawdown_le s s'"
  "close_opposite s oside opp fill_price fill_sz = Inr (s', r) \<Longrightarrow> drawdown_le s s'"
proof -
  have step: "record_trade (update_position s oside sz entry pnl) b = res \<Longrightarrow>
      drawdown_le s (state_after res)" for sz entry pnl b res
    using drawdown_le_trans [OF update_position_drawdown_le record_trade_drawdown_le] by blast
  show "close_opposite s oside opp fill_price fill_sz = Inl (e, s') \<Longrightarrow> drawdown_le s s'"
  proof (cases opp)
    case None
    then show "close_opposite s oside opp fill_price fill_sz = Inl (e, s') \<Longrightarrow> drawdown_le s s'"
      by (simp add: close_opposite_def)
  next
    case (Some p)
    assume "close_opposite s oside opp fill_price fill_sz = Inl (e, s')"
    with Some have "\<exists>sz entry pnl b.
        record_trade (update_position s oside sz entry pnl) b = Inl (e, s')"
      by (auto simp: close_opposite_def Let_def split: sum.splits)
    then show "drawdown_le s s'"
      using step by (fastforce simp: state_after_def)
  qed
  show "close_opposite s oside opp fill_price fill_sz = Inr (s', r) \<Longrightarrow> drawdown_le s s'"
  proof (cases opp)
    case None
    then show "close_opposite s oside opp fill_price fill_sz = Inr (s', r) \<Longrightarrow> drawdown_le s s'"
      by (simp add: close_opposite_def drawdown_le_refl)
  next
    case (Some p)
    assume "close_opposite s oside opp fill_price fill_sz = Inr (s', r)"
    with Some have "\<exists>sz entry pnl b.
        record_trade (update_position s oside sz entry pnl) b = Inr s'"
      by (auto simp: close_opposite_def Let_def split: sum.splits)
    then show "drawdown_le s s'"
      using step by (fastforce simp: state_after_def)
  qed
qed

lemma open_or_add_drawdown_le:
  "drawdown_le s (state_after (open_or_add s pside cur fill_price fill_sz))"
  by (auto simp: open_or_add_def Let_def state_after_def drawdown_le_refl
      update_position_drawdown_le split: option.splits)

lemma process_fill_drawdown_le:
  "drawdown_le s (state_after (process_fill s side fill_price fill_sz is_maker))"
proof -
  let ?pside = "if side = BUY then LONG else SHORT"
  let ?oside = "if side = BUY then SHORT else LONG"
  show ?thesis
  proof (cases "close_opposite s ?oside (get_position s ?oside) fill_price fill_sz")
    case (Inl a)
    obtain e s' where a: "a = (e, s')" by (cases a)
    have "process_fill s side fill_price fill_sz is_maker = Inl (e, s')"
      using Inl a by (simp add: process_fill_def Let_def)
    then show ?thesis
      using close_opposite_drawdown_le(1) Inl a by (simp add: state_after_def)
  next
    case (Inr b)
    obtain s2 r where b: "b = (s2, r)" by (cases b)
    have "process_fill s side fill_price fill_sz is_maker =
        open_or_add s2 ?pside (get_position s ?pside) fill_price r"
      using Inr b by (simp add: process_fill_def Let_def)
    then show ?thesis
      using drawdown_le_trans [OF close_opposite_drawdown_le(2) open_or_add_drawdown_le] Inr b
      by simp
  qed
qed

lemma run_alone_then_do:
  "run_alone m (then_do c f) =
     (case run_alone m c of Inl e \<Rightarrow> Inl e | Inr (u, s) \<Rightarrow> run_alone m (f s))"
proof (induction c)
  case (Return r)
  show ?case by (simp split: sum.splits prod.splits)
next
  case (Sleep d s k)
  have "k s \<in> range k" and "k s m \<in> range (k s)"
    by simp_all
  then have "run_alone m (then_do (k s m) f) =
      (case run_alone m (k s m) of Inl e \<Rightarrow> Inl e | Inr (u, s) \<Rightarrow> run_alone m (f s))"
    by (rule Sleep.IH)
  then show ?case by simp
qed

lemma run_alone_fill_order:
  "run_alone m (fill_order s fill_delay_ms jitter order fill_price fill_sz is_maker) =
     (case process_fill
             (apply_fee (snd (remove_order s (order_id order)))
                (calculate_fee fill_price fill_sz is_maker))
             (order_side order) fill_price fill_sz is_maker of
        Inl e \<Rightarrow> Inl e
      | Inr s3 \<Rightarrow> Inr ((), s3))"
  by (simp add: fill_order_def fill_order_after_delay_def Let_def split: sum.splits)

lemma remove_order_drawdown_le: "drawdown_le s (snd (remove_order s oid))"
  by (simp add: drawdown_le_def remove_order_def)

lemma fill_order_drawdown_le:
  "drawdown_le s
     (outcome_state (run_alone m (fill_order s fill_delay_ms jitter order fill_price fill_sz is_maker)))"
proof -
  let ?s2 = "apply_fee (snd (remove_order s (order_id order)))
                (calculate_fee fill_price fill_sz is_maker)"
  have a: "drawdown_le s ?s2"
    using drawdown_le_trans [OF remove_order_drawdown_le apply_fee_drawdown_le] .
  have b: "drawdown_le ?s2
      (state_after (process_fill ?s2 (order_side order) fill_price fill_sz is_maker))"
    by (rule process_fill_drawdown_le)
  have "outcome_state (run_alone m (fill_order s fill_delay_ms jitter order fill_price fill_sz is_maker))
      = state_after (process_fill ?s2 (order_side order) fill_price fill_sz is_maker)"
    by (simp add: run_alone_fill_order outcome_state_def state_after_def split: sum.splits prod.splits)
  then show ?thesis
    using drawdown_le_trans [OF a b] by simp
qed

lemma process_fills_drawdown_le:
  "drawdown_le s (outcome_state (run_alone m (process_fills fills fill_delay_ms jitter i s)))"
proof (induction fills arbitrary: s i)
  case Nil
  show ?case by (simp add: outcome_state_def drawdown_le_refl)
next
  case (Cons f fills)
  obtain order fill_price fill_sz is_maker where f: "f = (order, fill_price, fill_sz, is_maker)"
    by (cases f)
  let ?c = "fill_order s fill_delay_ms (jitter i) order fill_price fill_sz is_maker"
  have first: "drawdown_le s (outcome_state (run_alone m ?c))"
    by (rule fill_order_drawdown_le)
  show ?case
  proof (cases "run_alone m ?c")
    case (Inl a)
    then show ?thesis
      using first by (simp add: f run_alone_then_do)
  next
    case (Inr b)
    obtain u s3 where b: "b = (u, s3)" by (cases b)
    have "drawdown_le s s3"
      using first Inr b by (simp add: outcome_state_def)
    moreover have "drawdown_le s3
        (outcome_state (run_alone m (process_fills fills fill_delay_ms jitter (Suc i) s3)))"
      by (rule Cons.IH)
    ultimately show ?thesis
      using Inr b drawdown_le_trans by (simp add: f run_alone_then_do)
  qed
qed

lemma market_order_after_delay_drawdown_le:
  "drawdown_le s
     (outcome_state (run_alone m (market_order_after_delay side sz bid_price ask_price s m')))"
proof -
  obtain fill_price fill_sz where w:
    "simulate_market_order_fill side sz bid_price ask_price
       (buy_orders_list m') (sell_orders_list m') = (fill_price, fill_sz)"
    by (cases "simulate_market_order_fill side sz bid_price ask_price
       (buy_orders_list m') (sell_orders_list m')")
  let ?s1 = "apply_fee s (calculate_fee fill_price fill_sz False)"
  have "outcome_state (run_alone m (market_order_after_delay side sz bid_price ask_price s m'))
      = state_after (process_fill ?s1 side fill_price fill_sz False)"
    by (simp add: market_order_after_delay_def w Let_def outcome_state_def state_after_def
        split: sum.splits prod.splits)
  then show ?thesis
    using drawdown_le_trans [OF apply_fee_drawdown_le process_fill_drawdown_le] by simp
qed

lemma open_market_order_shape:
  "open_market_order s m fill_delay_ms jitter side sz is_reduce = Return (Inr (None, s))
   \<or> open_market_order s m fill_delay_ms jitter side sz is_reduce =
       Return (Inl (ZeroDivisionError, s))
   \<or> (\<exists>bid_price ask_price.
        best_price (buy_orders_list m) = Some bid_price
        \<and> best_price (sell_orders_list m) = Some ask_price
        \<and> open_market_order s m fill_delay_ms jitter side sz is_reduce =
          Sleep (fill_delay_seconds fill_delay_ms jitter) s
            (market_order_after_delay side sz bid_price ask_price))"
proof (cases "best_price (buy_orders_list m)")
  case None
  then show ?thesis by (simp add: open_market_order_def)
next
  case bid: (Some bid_price)
  show ?thesis
  proof (cases "best_price (sell_orders_list m)")
    case None
    with bid show ?thesis by (simp add: open_market_order_def)
  next
    case ask: (Some ask_price)
    show ?thesis
    proof (cases "bid_price = 0 \<or> ask_price = 0")
      case True
      with bid ask show ?thesis by (simp add: open_market_order_def)
    next
      case False
      show ?thesis
      proof (cases is_reduce)
        case True
        with bid ask False show ?thesis by (auto simp: open_market_order_def)
      next
        case margin: False
        let ?check = "can_open_position s sz (if side = BUY then ask_price else bid_price)
            (case mark_price m of
               None \<Rightarrow> (bid_price + ask_price) / 2
             | Some mp \<Rightarrow> if mp \<noteq> 0 then mp else (bid_price + ask_price) / 2)"
        show ?thesis
        proof (cases ?check)
          case (Inl e)
          then have "open_market_order s m fill_delay_ms jitter side sz is_reduce =
              Return (Inl (e, s))"
            using bid ask False margin by (simp add: open_market_order_def Let_def)
          then show ?thesis by (cases e) simp
        next
          case (Inr can_open)
          then show ?thesis
            using bid ask False margin by (auto simp: open_market_order_def Let_def)
        qed
      qed
    qed
  qed
qed

lemma open_market_order_drawdown_le:
  "drawdown_le s
     (outcome_state (run_alone m (open_market_order s m fill_delay_ms jitter side sz is_reduce)))"
  using open_market_order_shape [of s m fill_delay_ms jitter side sz is_reduce]
    market_order_after_delay_drawdown_le
  by (auto simp: outcome_state_def drawdown_le_refl)

lemma monitor_iteration_drawdown_le:
  "drawdown_le s (outcome_state (run_alone m (monitor_iteration s m fill_delay_ms jitter)))"
proof -
  have "monitor_iteration s m fill_delay_ms jitter = Sleep 0.1 s (\<lambda>s' m'. Return (Inr ((), s')))
      \<or> (\<exists>fills. monitor_iteration s m fill_delay_ms jitter =
            process_fills fills fill_delay_ms jitter 0 s)"
    by (auto simp: monitor_iteration_def split: option.splits)
  then show ?thesis
    using process_fills_drawdown_le by (auto simp: drawdown_le_refl outcome_state_def)
qed

lemma modify_limit_order_drawdown_le:
  "drawdown_le s (snd (modify_limit_order s oid side sz price is_reduce))"
  by (simp add: modify_limit_order_def remove_order_def add_order_def drawdown_le_def Let_def
      split: option.splits)

lemma open_limit_order_drawdown_le:
  "drawdown_le s (outcome_state (open_limit_order s m new_id side sz price is_reduce))"
  by (simp add: open_limit_order_def add_order_def drawdown_le_def outcome_state_def Let_def
      split: sum.splits)

lemma apply_op_drawdown_le: "drawdown_le s (apply_op s op)"
proof (cases op)
  case (Add_order order)
  then show ?thesis by (simp add: add_order_def drawdown_le_def)
next
  case (Remove_order oid)
  then show ?thesis by (simp add: remove_order_drawdown_le)
next
  case (Update_position side sz entry pnl)
  then show ?thesis by (simp add: update_position_drawdown_le)
next
  case (Apply_fee fee)
  then show ?thesis by (simp add: apply_fee_drawdown_le)
next
  case (Record_trade profitable)
  then show ?thesis by (simp add: record_trade_drawdown_le)
next
  case Cancel_all_orders
  then show ?thesis by (simp add: cancel_all_orders_def drawdown_le_def)
next
  case (Modify_limit_order oid side sz price is_reduce)
  then show ?thesis by (simp add: modify_limit_order_drawdown_le)
next
  case (Open_limit_order m new_id side sz price is_reduce)
  then show ?thesis by (simp add: open_limit_order_drawdown_le)
next
  case (Process_fill side fill_price fill_sz is_maker)
  then show ?thesis by (simp add: process_fill_drawdown_le)
next
  case (Open_market_order m fill_delay_ms jitter side sz is_reduce)
  then show ?thesis by (simp add: open_market_order_drawdown_le)
next
  case (Monitor_iteration m fill_delay_ms jitter)
  then show ?thesis by (simp add: monitor_iteration_drawdown_le)
qed

lemma foldl_apply_op_drawdown_le: "drawdown_le s (foldl apply_op s ops)"
proof (induction ops arbitrary: s)
  case Nil
  show ?case by (simp add: drawdown_le_refl)
next
  case (Cons op ops)
  show ?case
    using drawdown_le_trans [OF apply_op_drawdown_le Cons.IH] by simp
qed

lemma apply_op_unchanged:
  "\<not> closes_trades op \<Longrightarrow>
   peak_balance (apply_op s op) = peak_balance s \<and> max_drawdown (apply_op s op) = max_drawdown s"
proof (cases op)
  case (Open_limit_order m new_id side sz price is_reduce)
  then show ?thesis
    by (simp add: open_limit_order_def add_order_def outcome_state_def Let_def split: sum.splits)
next
  case (Modify_limit_order oid side sz price is_reduce)
  then show ?thesis
    by (simp add: modify_limit_order_def remove_order_def add_order_def Let_def
        split: option.splits)
qed (simp_all add: add_order_def remove_order_def update_position_fields apply_fee_def
    cancel_all_orders_def)


lemma record_trade_peak:
  "peak_balance (state_after (record_trade s profitable)) = max (peak_balance s) (balance s)"
  by (auto simp: record_trade_def state_after_def Let_def max_def)

lemma process_fill_no_close:
  "get_position s (if side = BUY then SHORT else LONG) = None \<Longrightarrow>
   peak_balance (state_after (process_fill s side fill_price fill_sz is_maker)) = peak_balance s
   \<and> max_drawdown (state_after (process_fill s side fill_price fill_sz is_maker)) = max_drawdown s"
  by (auto simp: process_fill_def close_opposite_def open_or_add_def state_after_def Let_def
      update_position_fields split: option.splits)

subsection \<open>Rounding to binary64\<close>

lemma pow2_powi: "pow2 e = 2 powi e"
  by (simp add: pow2_def power_int_def power_one_over inverse_eq_divide)


lemma pow2_diff: "pow2 (e - 53) = pow2 e / 2 ^ 53"
  by (simp add: pow2_powi power_int_diff)









lemma binary_exponent_gt:
  assumes "0 < x"
  shows "x < pow2 (binary_exponent x + 1)"
proof (cases "1 \<le> x")
  case True
  then have n: "0 < \<lfloor>x\<rfloor>" by simp
  from bitlen_bounds [OF n] have b: "\<lfloor>x\<rfloor> < 2 ^ nat (bitlen \<lfloor>x\<rfloor>)" by simp
  have ge: "0 \<le> bitlen \<lfloor>x\<rfloor>" by (rule bitlen_nonneg)
  from b have "\<lfloor>x\<rfloor> + 1 \<le> 2 ^ nat (bitlen \<lfloor>x\<rfloor>)" by simp
  then have "real_of_int (\<lfloor>x\<rfloor> + 1) \<le> real_of_int (2 ^ nat (bitlen \<lfloor>x\<rfloor>))"
    by (simp only: of_int_le_iff)
  moreover have "x < real_of_int (\<lfloor>x\<rfloor> + 1)" by linarith
  ultimately have "x < real_of_int (2 ^ nat (bitlen \<lfloor>x\<rfloor>))" by linarith
  then show ?thesis using True ge by (simp add: binary_exponent_def pow2_def)
next
  case False
  let ?y = "1 / x"
  let ?n = "\<lceil>?y\<rceil> - 1"
  have y: "1 < ?y" using False assms by simp
  then have "1 < \<lceil>?y\<rceil>" by linarith
  then have n: "0 < ?n" by simp
  from bitlen_bounds [OF n] have b: "2 ^ nat (bitlen ?n - 1) \<le> ?n" by simp
  have k: "0 < bitlen ?n"
    using n by (simp add: bitlen_alt_def)
  from b have "real_of_int (2 ^ nat (bitlen ?n - 1)) \<le> real_of_int ?n"
    by (simp only: of_int_le_iff)
  moreover have "real_of_int ?n < ?y" by linarith
  ultimately have lt: "2 ^ nat (bitlen ?n - 1) < ?y" by simp
  have "x * 2 ^ nat (bitlen ?n - 1) < 1"
    using lt assms by (simp add: field_simps)
  then have "x < 1 / 2 ^ nat (bitlen ?n - 1)"
    by (simp add: field_simps)
  moreover have "pow2 (- bitlen ?n + 1) = 1 / 2 ^ nat (bitlen ?n - 1)"
  proof (cases "bitlen ?n = 1")
    case True
    then show ?thesis by (simp add: pow2_def)
  next
    case False
    with k have "- bitlen ?n + 1 < 0" by simp
    then show ?thesis by (simp add: pow2_def)
  qed
  ultimately show ?thesis using False by (simp add: binary_exponent_def)
qed










subsection \<open>The walk through the order book\<close>

lemma walk_loop_done: "r \<le> 0 \<Longrightarrow> walk_loop levels r c f = (r, c, f)"
  by (cases levels) auto

























lemma walk_order_book_nonpositive:
  "sz \<le> 0 \<Longrightarrow> orders_list \<noteq> [] \<Longrightarrow>
   walk_order_book orders_list sz starting_price is_buy = (starting_price, 0)"
proof -
  assume sz: "sz \<le> 0" and ne: "orders_list \<noteq> []"
  have "walk_loop (take 10 orders_list) sz 0 0 = (sz, 0, 0)"
    using sz by (rule walk_loop_done)
  then show ?thesis
    using sz ne by (simp add: walk_order_book_def)
qed




subsection \<open>Suspension points\<close>

lemma suspended_state_then_do:
  "suspended_state c = Some s \<Longrightarrow> suspended_state (then_do c f) = Some s"
  by (cases c) simp_all

lemma fill_order_suspended:
  "suspended_state (fill_order s fill_delay_ms jitter order fill_price fill_sz is_maker) =
     Some (apply_fee (snd (remove_order s (order_id order)))
             (calculate_fee fill_price fill_sz is_maker))"
  by (simp add: fill_order_def Let_def)

section \<open>Fees\<close>

text \<open>
  C7. For every price, size and maker flag, \<^verbatim>\<open>calculate_fee\<close> returns price * size * rate,
  where the maker rate is the fixed negative rebate -0.0002 and the taker rate the fixed
  positive 0.0005. On the inputs (100, 10) the maker fee is -0.2 and the taker fee is 0.5
  (exactly so in real arithmetic, hence also within the relative tolerance 0.01 of the
  repository's tests).
\<close>

theorem calculate_fee_rates:
  "calculate_fee price sz True = price * sz * (- 0.0002)
   \<and> calculate_fee price sz False = price * sz * 0.0005
   \<and> MAKER_FEE_RATE < 0 \<and> 0 < TAKER_FEE_RATE
   \<and> calculate_fee 100 10 True = - 0.2
   \<and> calculate_fee 100 10 False = 0.5
   \<and> \<bar>calculate_fee 100 10 True - (- 0.2)\<bar> \<le> 0.01 * 0.2
   \<and> \<bar>calculate_fee 100 10 False - 0.5\<bar> \<le> 0.01 * 0.5"
  by (simp add: calculate_fee_def MAKER_FEE_RATE_def TAKER_FEE_RATE_def)

section \<open>Limit-order fills\<close>

text \<open>
  C2. For a BUY limit order, \<^verbatim>\<open>check_limit_order_fill\<close> returns no fill when the best ask
  is above the order price. When the best ask is at or below it, the maker flag is
  (order price < best bid), the fill price is the order price for a maker fill and
  min(order price, best ask) for a taker fill, the fill size is min(order size, L) with L
  the sell liquidity at or below the order price (summed in list order up to the first
  level priced above the order price), and a fill is returned exactly when that size is
  strictly positive. A SELL order mirrors this with the bid levels: fill when best bid >=
  order price, maker flag (order price > best ask), taker price max(order price, best bid).
\<close>

theorem check_limit_order_fill_spec:
  "(order_side order = BUY \<longrightarrow>
      check_limit_order_fill order bid ask buys sells =
        (if ask \<le> order_price order
            \<and> 0 < min (order_size order) (liquidity_at_or_better sells (order_price order) True)
         then Some ((if order_price order < bid then order_price order
                     else min (order_price order) ask),
                    min (order_size order) (liquidity_at_or_better sells (order_price order) True),
                    order_price order < bid)
         else None))
   \<and> (order_side order = SELL \<longrightarrow>
      check_limit_order_fill order bid ask buys sells =
        (if bid \<ge> order_price order
            \<and> 0 < min (order_size order) (liquidity_at_or_better buys (order_price order) False)
         then Some ((if order_price order > ask then order_price order
                     else max (order_price order) bid),
                    min (order_size order) (liquidity_at_or_better buys (order_price order) False),
                    order_price order > ask)
         else None))"
  by (simp add: check_limit_order_fill_def get_available_liquidity_eq Let_def min_def)

theorem check_limit_order_fill_spec_witness:
  "check_limit_order_fill
     \<lparr>order_id = ''test_1'', order_side = BUY, order_size = 10, order_price = 99\<rparr>
     98 99 [(98, 10)] [(99, 15), (100, 7)] = Some (99, 10, False)
   \<and> check_limit_order_fill
     \<lparr>order_id = ''test_1'', order_side = BUY, order_size = 10, order_price = 99\<rparr>
     98 99 [(98, 10)] [(99, 4), (100, 7), (98, 3)] = Some (99, 4, False)
   \<and> check_limit_order_fill
     \<lparr>order_id = ''test_1'', order_side = BUY, order_size = 10, order_price = 99\<rparr>
     100 101 [(100, 10)] [(101, 10)] = None
   \<and> check_limit_order_fill
     \<lparr>order_id = ''test_2'', order_side = SELL, order_size = 10, order_price = 101\<rparr>
     101 102 [(101, 15)] [(102, 10)] = Some (101, 10, False)"
  using
    check_limit_order_fill_spec [of
      "\<lparr>order_id = ''test_1'', order_side = BUY, order_size = 10, order_price = 99\<rparr>"
      98 99 "[(98, 10)]" "[(99, 15), (100, 7)]"]
    check_limit_order_fill_spec [of
      "\<lparr>order_id = ''test_1'', order_side = BUY, order_size = 10, order_price = 99\<rparr>"
      98 99 "[(98, 10)]" "[(99, 4), (100, 7), (98, 3)]"]
    check_limit_order_fill_spec [of
      "\<lparr>order_id = ''test_1'', order_side = BUY, order_size = 10, order_price = 99\<rparr>"
      100 101 "[(100, 10)]" "[(101, 10)]"]
    check_limit_order_fill_spec [of
      "\<lparr>order_id = ''test_2'', order_side = SELL, order_size = 10, order_price = 101\<rparr>"
      101 102 "[(101, 15)]" "[(102, 10)]"]
  by (simp add: liquidity_at_or_better_def)

section \<open>Market-order fills\<close>





section \<open>Margin check\<close>

text \<open>
  C5. For every portfolio state (with a non-zero leverage, by which the check divides) and
  every size, price and mark price, \<^verbatim>\<open>can_open_position\<close> returns true if and only if
  equity - usedMargin >= requiredMargin, where requiredMargin = size * price / maxLeverage,
  equity = balance + the sum over the open positions of their unrealized PnL at the mark
  price ((mark - entry) * size for LONG, (entry - mark) * size for SHORT), and usedMargin
  = (the sum over the open positions of |size| * mark) / maxLeverage.
\<close>

theorem can_open_position_spec:
  "max_leverage s \<noteq> 0 \<Longrightarrow>
   can_open_position s sz price mark =
     Inr ((balance s + sum_list (map (position_pnl mark) (map snd (open_positions s))))
            - sum_list (map (position_notional mark) (map snd (open_positions s)))
                / real_of_int (max_leverage s)
          \<ge> sz * price / real_of_int (max_leverage s))"
  by (simp add: can_open_position_def get_equity_def get_unrealized_pnl_def
      get_total_position_value_def total_value_loop_acc total_pnl_loop_acc Let_def)

theorem can_open_position_spec_witness:
  "max_leverage
     \<lparr>initial_balance = 1000, balance = 1000, max_leverage = 5, open_orders = [],
      open_positions =
        [(LONG, \<lparr>pos_side = LONG, pos_size = 10, entry_price = 100\<rparr>),
         (SHORT, \<lparr>pos_side = SHORT, pos_size = 4, entry_price = 120\<rparr>)],
      total_trades = 0, winning_trades = 0, total_fees_paid = 0, peak_balance = 1000,
      max_drawdown = 0\<rparr> \<noteq> 0
   \<and> can_open_position
     \<lparr>initial_balance = 1000, balance = 1000, max_leverage = 5, open_orders = [],
      open_positions =
        [(LONG, \<lparr>pos_side = LONG, pos_size = 10, entry_price = 100\<rparr>),
         (SHORT, \<lparr>pos_side = SHORT, pos_size = 4, entry_price = 120\<rparr>)],
      total_trades = 0, winning_trades = 0, total_fees_paid = 0, peak_balance = 1000,
      max_drawdown = 0\<rparr> 40 100 110 = Inr True
   \<and> can_open_position
     \<lparr>initial_balance = 1000, balance = 1000, max_leverage = 5, open_orders = [],
      open_positions =
        [(LONG, \<lparr>pos_side = LONG, pos_size = 10, entry_price = 100\<rparr>),
         (SHORT, \<lparr>pos_side = SHORT, pos_size = 4, entry_price = 120\<rparr>)],
      total_trades = 0, winning_trades = 0, total_fees_paid = 0, peak_balance = 1000,
      max_drawdown = 0\<rparr> 42 100 110 = Inr False"
  using
    can_open_position_spec [of
      "\<lparr>initial_balance = 1000, balance = 1000, max_leverage = 5, open_orders = [],
        open_positions =
          [(LONG, \<lparr>pos_side = LONG, pos_size = 10, entry_price = 100\<rparr>),
           (SHORT, \<lparr>pos_side = SHORT, pos_size = 4, entry_price = 120\<rparr>)],
        total_trades = 0, winning_trades = 0, total_fees_paid = 0, peak_balance = 1000,
        max_drawdown = 0\<rparr>" 40 100 110]
    can_open_position_spec [of
      "\<lparr>initial_balance = 1000, balance = 1000, max_leverage = 5, open_orders = [],
        open_positions =
          [(LONG, \<lparr>pos_side = LONG, pos_size = 10, entry_price = 100\<rparr>),
           (SHORT, \<lparr>pos_side = SHORT, pos_size = 4, entry_price = 120\<rparr>)],
        total_trades = 0, winning_trades = 0, total_fees_paid = 0, peak_balance = 1000,
        max_drawdown = 0\<rparr>" 42 100 110]
  by (simp add: position_pnl_def position_notional_def)

section \<open>Resting orders\<close>

text \<open>
  C8. For every order id: if an order with that id is resting, \<^verbatim>\<open>modify_limit_order\<close>
  removes it and inserts a new order under the same id with the new side, size and price
  (the other resting orders stay as they are), and returns a record of the new order. If
  no order with that id is resting, it returns \<open>None\<close> and the whole portfolio state is
  unchanged.
\<close>

theorem modify_limit_order_spec:
  "(map_of (open_orders s) oid \<noteq> None \<longrightarrow>
      modify_limit_order s oid side sz price is_reduce =
        (Some \<lparr>order_id = oid, order_side = side, order_size = sz, order_price = price\<rparr>,
         s\<lparr>open_orders := AList.delete oid (open_orders s)
              @ [(oid, \<lparr>order_id = oid, order_side = side, order_size = sz,
                         order_price = price\<rparr>)]\<rparr>)
      \<and> map_of (open_orders (snd (modify_limit_order s oid side sz price is_reduce))) =
          (map_of (open_orders s))
            (oid \<mapsto> \<lparr>order_id = oid, order_side = side, order_size = sz, order_price = price\<rparr>))
   \<and> (map_of (open_orders s) oid = None \<longrightarrow>
      modify_limit_order s oid side sz price is_reduce = (None, s))"
  using modify_limit_order_present [of s oid side sz price is_reduce]
    modify_limit_order_lookup [of s oid side sz price is_reduce]
    modify_limit_order_absent [of s oid side sz price is_reduce]
  by blast

theorem modify_limit_order_spec_witness:
  "modify_limit_order
     (add_order
        (add_order (PortfolioTracker_init 1000 5)
           \<lparr>order_id = ''a'', order_side = BUY, order_size = 1, order_price = 99\<rparr>)
        \<lparr>order_id = ''b'', order_side = SELL, order_size = 3, order_price = 105\<rparr>)
     ''a'' SELL 2 101 False =
     (Some \<lparr>order_id = ''a'', order_side = SELL, order_size = 2, order_price = 101\<rparr>,
      (PortfolioTracker_init 1000 5)
        \<lparr>open_orders :=
           [(''b'', \<lparr>order_id = ''b'', order_side = SELL, order_size = 3, order_price = 105\<rparr>),
            (''a'', \<lparr>order_id = ''a'', order_side = SELL, order_size = 2, order_price = 101\<rparr>)]\<rparr>)
   \<and> modify_limit_order
     (add_order (PortfolioTracker_init 1000 5)
        \<lparr>order_id = ''a'', order_side = BUY, order_size = 1, order_price = 99\<rparr>)
     ''c'' SELL 2 101 False =
     (None,
      add_order (PortfolioTracker_init 1000 5)
        \<lparr>order_id = ''a'', order_side = BUY, order_size = 1, order_price = 99\<rparr>)"
  using
    modify_limit_order_spec [of
      "add_order
        (add_order (PortfolioTracker_init 1000 5)
           \<lparr>order_id = ''a'', order_side = BUY, order_size = 1, order_price = 99\<rparr>)
        \<lparr>order_id = ''b'', order_side = SELL, order_size = 3, order_price = 105\<rparr>"
      "''a''" SELL 2 101 False]
    modify_limit_order_spec [of
      "add_order (PortfolioTracker_init 1000 5)
        \<lparr>order_id = ''a'', order_side = BUY, order_size = 1, order_price = 99\<rparr>"
      "''c''" SELL 2 101 False]
  by (simp add: add_order_def PortfolioTracker_init_def)

text \<open>
  C9. For every portfolio state, \<^verbatim>\<open>cancel_all_orders\<close> empties the set of resting orders
  (no id has an order afterwards) and changes nothing else: the balance, the open positions, the trade counters, the peak
  balance, the maximum drawdown and the total of fees paid (and the two configuration
  fields) are the same after the call as before it.
\<close>

theorem cancel_all_orders_frame:
  "open_orders (cancel_all_orders s) = []
   \<and> get_order (cancel_all_orders s) oid = None
   \<and> balance (cancel_all_orders s) = balance s
   \<and> open_positions (cancel_all_orders s) = open_positions s
   \<and> total_trades (cancel_all_orders s) = total_trades s
   \<and> winning_trades (cancel_all_orders s) = winning_trades s
   \<and> peak_balance (cancel_all_orders s) = peak_balance s
   \<and> max_drawdown (cancel_all_orders s) = max_drawdown s
   \<and> total_fees_paid (cancel_all_orders s) = total_fees_paid s
   \<and> initial_balance (cancel_all_orders s) = initial_balance s
   \<and> max_leverage (cancel_all_orders s) = max_leverage s"
  by (simp add: cancel_all_orders_def get_order_def)

text \<open>
  C10. \<^verbatim>\<open>modify_limit_order\<close> never performs a margin check: for every resting order id
  and any new size and price, with \<^verbatim>\<open>is_reduce\<close> false, the replacement order is accepted
  (returned and resting under the id) whatever the portfolio's margin is, and never raises.
  \<^verbatim>\<open>open_limit_order\<close>, in contrast, consults \<^verbatim>\<open>can_open_position\<close> when \<^verbatim>\<open>is_reduce\<close> is
  false, at the mark price (the order price when there is no mark price), and when the
  answer is no it returns \<open>None\<close> and creates no order: the state is unchanged.
\<close>

theorem modify_limit_order_no_margin_check:
  "(map_of (open_orders s) oid \<noteq> None \<longrightarrow>
      fst (modify_limit_order s oid side sz price False) =
        Some \<lparr>order_id = oid, order_side = side, order_size = sz, order_price = price\<rparr>
      \<and> get_order (snd (modify_limit_order s oid side sz price False)) oid =
        Some \<lparr>order_id = oid, order_side = side, order_size = sz, order_price = price\<rparr>)
   \<and> (can_open_position s sz price
         (case mark_price m of None \<Rightarrow> price | Some mp \<Rightarrow> if mp \<noteq> 0 then mp else price)
         = Inr False \<longrightarrow>
      open_limit_order s m new_id side sz price False = Inr (None, s))
   \<and> (can_open_position s sz price
         (case mark_price m of None \<Rightarrow> price | Some mp \<Rightarrow> if mp \<noteq> 0 then mp else price)
         = Inr True \<longrightarrow>
      open_limit_order s m new_id side sz price False =
        Inr (Some \<lparr>order_id = new_id, order_side = side, order_size = sz, order_price = price\<rparr>,
             add_order s
               \<lparr>order_id = new_id, order_side = side, order_size = sz, order_price = price\<rparr>))"
  by (auto simp: modify_limit_order_def remove_order_def add_order_def get_order_def
      open_limit_order_def update_conv' Let_def)

theorem modify_limit_order_no_margin_check_witness:
  "can_open_position
     (add_order (PortfolioTracker_init 1000 5)
        \<lparr>order_id = ''a'', order_side = BUY, order_size = 1, order_price = 99\<rparr>)
     100 100 100 = Inr False
   \<and> fst (modify_limit_order
       (add_order (PortfolioTracker_init 1000 5)
          \<lparr>order_id = ''a'', order_side = BUY, order_size = 1, order_price = 99\<rparr>)
       ''a'' BUY 100 100 False) =
     Some \<lparr>order_id = ''a'', order_side = BUY, order_size = 100, order_price = 100\<rparr>
   \<and> get_order (snd (modify_limit_order
       (add_order (PortfolioTracker_init 1000 5)
          \<lparr>order_id = ''a'', order_side = BUY, order_size = 1, order_price = 99\<rparr>)
       ''a'' BUY 100 100 False)) ''a'' =
     Some \<lparr>order_id = ''a'', order_side = BUY, order_size = 100, order_price = 100\<rparr>
   \<and> open_limit_order
       (add_order (PortfolioTracker_init 1000 5)
          \<lparr>order_id = ''a'', order_side = BUY, order_size = 1, order_price = 99\<rparr>)
       \<lparr>buy_orders_list = [(99, 5)], sell_orders_list = [(101, 5)], mark_price = Some 100\<rparr>
       ''paper_1'' BUY 100 100 False =
     Inr (None,
          add_order (PortfolioTracker_init 1000 5)
            \<lparr>order_id = ''a'', order_side = BUY, order_size = 1, order_price = 99\<rparr>)"
proof -
  have margin: "can_open_position
     (add_order (PortfolioTracker_init 1000 5)
        \<lparr>order_id = ''a'', order_side = BUY, order_size = 1, order_price = 99\<rparr>)
     100 100 100 = Inr False"
    by (simp add: can_open_position_def add_order_def PortfolioTracker_init_def
        get_equity_def get_unrealized_pnl_def get_total_position_value_def)
  have resting: "map_of (open_orders
     (add_order (PortfolioTracker_init 1000 5)
        \<lparr>order_id = ''a'', order_side = BUY, order_size = 1, order_price = 99\<rparr>)) ''a'' \<noteq> None"
    by (simp add: add_order_def PortfolioTracker_init_def)
  show ?thesis
    using margin resting
      modify_limit_order_no_margin_check [of
        "add_order (PortfolioTracker_init 1000 5)
          \<lparr>order_id = ''a'', order_side = BUY, order_size = 1, order_price = 99\<rparr>"
        "''a''" BUY 100 100
        "\<lparr>buy_orders_list = [(99, 5)], sell_orders_list = [(101, 5)], mark_price = Some 100\<rparr>"
        "''paper_1''"]
    by simp
qed

section \<open>The position-update procedure\<close>

text \<open>
  C1. For every fill (order side, fill price, fill size) run through \<^verbatim>\<open>_process_fill\<close>,
  with \<open>oside\<close> the side opposite to the order's and \<open>pside\<close> the order's own side: if a
  position exists on the opposite side, exactly close = min(fill size, its size) is closed
  first; the realized PnL is computed from its entry price and the fill price, and is added
  to the balance by the same \<^verbatim>\<open>update_position\<close> call that shrinks the opposite position
  (or removes it, when the new size is 0); a trade is recorded, as a winning one exactly
  when the realized PnL is positive; and only the remaining size rest = fill size - close,
  when positive, then opens or adds to the position on the order's own side. When adding,
  the new entry price is (oldSize * oldEntry + rest * fillPrice) / (oldSize + rest); when
  opening, it is the fill price. In particular a fill larger than the opposite position
  leaves no position on the opposite side and, where the own side was empty, creates a
  position of the leftover size there.

  The two hypotheses say that the procedure's two divisions are defined: the peak balance
  after the close is not 0 (\<^verbatim>\<open>record_trade\<close> divides by it), and the enlarged position does
  not have size 0 (the average entry price divides by it). Both hold in every state with a
  positive peak balance and positive position sizes.
\<close>

theorem process_fill_close_then_open:
  fixes s side fill_price fill_sz is_maker
  defines "pside \<equiv> (if side = BUY then LONG else SHORT)"
  defines "oside \<equiv> (if side = BUY then SHORT else LONG)"
  defines "close \<equiv>
    (case get_position s oside of None \<Rightarrow> 0 | Some opp \<Rightarrow> min fill_sz (pos_size opp))"
  defines "pnl \<equiv>
    (case get_position s oside of
       None \<Rightarrow> 0
     | Some opp \<Rightarrow>
         if oside = LONG then (fill_price - entry_price opp) * close
         else (entry_price opp - fill_price) * close)"
  defines "rest \<equiv> fill_sz - close"
  assumes peak_ok:
    "get_position s oside \<noteq> None \<Longrightarrow> max (peak_balance s) (balance s + pnl) \<noteq> 0"
  assumes size_ok:
    "\<And>cur. get_position s pside = Some cur \<Longrightarrow> rest > 0 \<Longrightarrow> pos_size cur + rest \<noteq> 0"
  shows "\<exists>s'. process_fill s side fill_price fill_sz is_maker = Inr s'
    \<and> balance s' = balance s + pnl
    \<and> get_position s' oside =
        (case get_position s oside of
           None \<Rightarrow> None
         | Some opp \<Rightarrow>
             if pos_size opp - close = 0 then None
             else Some \<lparr>pos_side = oside, pos_size = pos_size opp - close,
                         entry_price = entry_price opp\<rparr>)
    \<and> total_trades s' = total_trades s + (if get_position s oside = None then 0 else 1)
    \<and> winning_trades s' =
        winning_trades s + (if get_position s oside \<noteq> None \<and> pnl > 0 then 1 else 0)
    \<and> get_position s' pside =
        (if rest > 0 then
           (case get_position s pside of
              None \<Rightarrow> Some \<lparr>pos_side = pside, pos_size = rest, entry_price = fill_price\<rparr>
            | Some cur \<Rightarrow>
                Some \<lparr>pos_side = pside, pos_size = pos_size cur + rest,
                       entry_price = (pos_size cur * entry_price cur + rest * fill_price)
                                       / (pos_size cur + rest)\<rparr>)
         else get_position s pside)
    \<and> (\<forall>opp. get_position s oside = Some opp \<and> fill_sz > pos_size opp \<longrightarrow>
          get_position s' oside = None
          \<and> (get_position s pside = None \<longrightarrow>
               get_position s' pside =
                 Some \<lparr>pos_side = pside, pos_size = fill_sz - pos_size opp,
                        entry_price = fill_price\<rparr>))
    \<and> (\<forall>sd sz entry p.
          balance (update_position s sd sz entry p) = balance s + p
          \<and> get_position (update_position s sd sz entry p) sd =
              (if sz = 0 then None
               else Some \<lparr>pos_side = sd, pos_size = sz, entry_price = entry\<rparr>))"
proof -
  have sides: "pside \<noteq> oside"
    by (simp add: pside_def oside_def)
  have unfold: "process_fill s side fill_price fill_sz is_maker =
      (case close_opposite s oside (get_position s oside) fill_price fill_sz of
         Inl e \<Rightarrow> Inl e
       | Inr (s2, fill_sz') \<Rightarrow> open_or_add s2 pside (get_position s pside) fill_price fill_sz')"
    unfolding process_fill_def Let_def pside_def oside_def by (cases side) simp_all
  have upd: "\<forall>sd sz entry p.
      balance (update_position s sd sz entry p) = balance s + p
      \<and> get_position (update_position s sd sz entry p) sd =
          (if sz = 0 then None else Some \<lparr>pos_side = sd, pos_size = sz, entry_price = entry\<rparr>)"
    by (simp add: update_position_fields get_position_update_same)
  show ?thesis
  proof (cases "get_position s oside")
    case None
    then have c0: "close = 0" "pnl = 0" "rest = fill_sz"
      by (simp_all add: close_def pnl_def rest_def)
    have step1: "close_opposite s oside (get_position s oside) fill_price fill_sz = Inr (s, rest)"
      using None c0 by (simp add: close_opposite_def)
    from size_ok have
      "\<And>c. get_position s pside = Some c \<Longrightarrow> rest > 0 \<Longrightarrow> pos_size c + rest \<noteq> 0"
      by simp
    from open_or_add_effect [of "get_position s pside" rest s pside fill_price, OF this]
    obtain s' where s': "open_or_add s pside (get_position s pside) fill_price rest = Inr s'"
      "balance s' = balance s" "total_trades s' = total_trades s"
      "winning_trades s' = winning_trades s"
      "\<forall>side'. side' \<noteq> pside \<longrightarrow> get_position s' side' = get_position s side'"
      "get_position s' pside =
        (if rest > 0 then
           (case get_position s pside of
              None \<Rightarrow> Some \<lparr>pos_side = pside, pos_size = rest, entry_price = fill_price\<rparr>
            | Some c \<Rightarrow>
                Some \<lparr>pos_side = pside, pos_size = pos_size c + rest,
                       entry_price = (pos_size c * entry_price c + rest * fill_price)
                                       / (pos_size c + rest)\<rparr>)
         else get_position s pside)"
      by blast
    have "process_fill s side fill_price fill_sz is_maker = Inr s'"
      using unfold step1 s'(1) by simp
    moreover have "get_position s' oside = None"
      using s'(5) sides None by metis
    ultimately show ?thesis
      using s'(2,3,4,6) None c0(1,2) upd by simp
  next
    case (Some opp)
    then have c1a: "close = min fill_sz (pos_size opp)"
      by (simp add: close_def)
    have c1b: "pnl = calculate_realized_pnl (entry_price opp) fill_price close (oside = LONG)"
      using Some by (simp add: pnl_def calculate_realized_pnl_def)
    from peak_ok Some c1a c1b have
      "max (peak_balance s)
         (balance s + calculate_realized_pnl (entry_price opp) fill_price
                        (min fill_sz (pos_size opp)) (oside = LONG)) \<noteq> 0"
      by simp
    from close_opposite_Some [OF this]
    obtain s2 where s2:
      "close_opposite s oside (Some opp) fill_price fill_sz = Inr (s2, rest)"
      "balance s2 = balance s + pnl"
      "get_position s2 oside =
        (if pos_size opp - close = 0 then None
         else Some \<lparr>pos_side = oside, pos_size = pos_size opp - close,
                     entry_price = entry_price opp\<rparr>)"
      "\<forall>side'. side' \<noteq> oside \<longrightarrow> get_position s2 side' = get_position s side'"
      "total_trades s2 = total_trades s + 1"
      "winning_trades s2 = winning_trades s + (if pnl > 0 then 1 else 0)"
      unfolding c1a [symmetric] c1b [symmetric] rest_def by blast
    from size_ok have
      "\<And>c. get_position s pside = Some c \<Longrightarrow> rest > 0 \<Longrightarrow> pos_size c + rest \<noteq> 0"
      by simp
    from open_or_add_effect [of "get_position s pside" rest s2 pside fill_price, OF this]
    obtain s' where s': "open_or_add s2 pside (get_position s pside) fill_price rest = Inr s'"
      "balance s' = balance s2" "total_trades s' = total_trades s2"
      "winning_trades s' = winning_trades s2"
      "\<forall>side'. side' \<noteq> pside \<longrightarrow> get_position s' side' = get_position s2 side'"
      "get_position s' pside =
        (if rest > 0 then
           (case get_position s pside of
              None \<Rightarrow> Some \<lparr>pos_side = pside, pos_size = rest, entry_price = fill_price\<rparr>
            | Some c \<Rightarrow>
                Some \<lparr>pos_side = pside, pos_size = pos_size c + rest,
                       entry_price = (pos_size c * entry_price c + rest * fill_price)
                                       / (pos_size c + rest)\<rparr>)
         else get_position s2 pside)"
      by blast
    have run: "process_fill s side fill_price fill_sz is_maker = Inr s'"
      using unfold Some s2(1) s'(1) by simp
    have opp': "get_position s' oside =
        (if pos_size opp - close = 0 then None
         else Some \<lparr>pos_side = oside, pos_size = pos_size opp - close,
                     entry_price = entry_price opp\<rparr>)"
      using s'(5) sides s2(3) by metis
    have own: "get_position s2 pside = get_position s pside"
      using s2(4) sides by blast
    have larger: "fill_sz > pos_size opp \<Longrightarrow> close = pos_size opp \<and> rest = fill_sz - pos_size opp"
      by (simp add: c1a rest_def)
    show ?thesis
      using run opp' s'(2,3,4,6) s2(2,5,6) own Some upd larger by auto
  qed
qed


theorem process_fill_close_then_open_witness:
  "(\<exists>s'. process_fill
     \<lparr>initial_balance = 1000, balance = 1000, max_leverage = 5, open_orders = [],
      open_positions = [(SHORT, \<lparr>pos_side = SHORT, pos_size = 10, entry_price = 100\<rparr>)],
      total_trades = 0, winning_trades = 0, total_fees_paid = 0, peak_balance = 1000,
      max_drawdown = 0\<rparr> BUY 95 15 False = Inr s'
    \<and> balance s' = 1050
    \<and> get_position s' SHORT = None
    \<and> get_position s' LONG = Some \<lparr>pos_side = LONG, pos_size = 5, entry_price = 95\<rparr>
    \<and> total_trades s' = 1 \<and> winning_trades s' = 1)
   \<and> (\<exists>s'. process_fill
     \<lparr>initial_balance = 1000, balance = 1000, max_leverage = 5, open_orders = [],
      open_positions = [(LONG, \<lparr>pos_side = LONG, pos_size = 10, entry_price = 100\<rparr>)],
      total_trades = 0, winning_trades = 0, total_fees_paid = 0, peak_balance = 1000,
      max_drawdown = 0\<rparr> BUY 120 10 True = Inr s'
    \<and> balance s' = 1000
    \<and> get_position s' LONG = Some \<lparr>pos_side = LONG, pos_size = 20, entry_price = 110\<rparr>
    \<and> total_trades s' = 0)"
  using
    process_fill_close_then_open [of
      "\<lparr>initial_balance = 1000, balance = 1000, max_leverage = 5, open_orders = [],
        open_positions = [(SHORT, \<lparr>pos_side = SHORT, pos_size = 10, entry_price = 100\<rparr>)],
        total_trades = 0, winning_trades = 0, total_fees_paid = 0, peak_balance = 1000,
        max_drawdown = 0\<rparr>" BUY 95 15 False]
    process_fill_close_then_open [of
      "\<lparr>initial_balance = 1000, balance = 1000, max_leverage = 5, open_orders = [],
        open_positions = [(LONG, \<lparr>pos_side = LONG, pos_size = 10, entry_price = 100\<rparr>)],
        total_trades = 0, winning_trades = 0, total_fees_paid = 0, peak_balance = 1000,
        max_drawdown = 0\<rparr>" BUY 120 10 True]
  by (simp add: get_position_def) blast


section \<open>Peak balance and drawdown\<close>

text \<open>
  C6. Across every sequence of portfolio operations, \<^verbatim>\<open>peak_balance\<close> never decreases and
  \<^verbatim>\<open>max_drawdown\<close> never decreases. Both are updated only inside \<^verbatim>\<open>record_trade\<close>: every
  operation that cannot reach \<^verbatim>\<open>record_trade\<close> leaves both as they are, and so does a fill
  that closes no position. \<^verbatim>\<open>record_trade\<close> first sets the peak to max(peak, balance) and
  then (the new peak being the divisor, it must not be 0) sets the maximum drawdown to
  max(max drawdown, (peak - balance) / peak), with the balance it finds at the close.
\<close>

theorem peak_and_drawdown_monotone:
  "peak_balance s \<le> peak_balance (foldl apply_op s ops)
   \<and> max_drawdown s \<le> max_drawdown (foldl apply_op s ops)
   \<and> (\<not> closes_trades op \<longrightarrow>
        peak_balance (apply_op s op) = peak_balance s
        \<and> max_drawdown (apply_op s op) = max_drawdown s)
   \<and> (get_position s (if side = BUY then SHORT else LONG) = None \<longrightarrow>
        peak_balance (apply_op s (Process_fill side fill_price fill_sz is_maker)) = peak_balance s
        \<and> max_drawdown (apply_op s (Process_fill side fill_price fill_sz is_maker)) =
            max_drawdown s)
   \<and> peak_balance (state_after (record_trade s profitable)) = max (peak_balance s) (balance s)
   \<and> (max (peak_balance s) (balance s) \<noteq> 0 \<longrightarrow>
        (\<exists>s'. record_trade s profitable = Inr s'
           \<and> balance s' = balance s
           \<and> peak_balance s' = max (peak_balance s) (balance s)
           \<and> max_drawdown s' =
               max (max_drawdown s) ((peak_balance s' - balance s') / peak_balance s')))"
proof -
  have mono: "drawdown_le s (foldl apply_op s ops)"
    by (rule foldl_apply_op_drawdown_le)
  have rt: "max (peak_balance s) (balance s) \<noteq> 0 \<longrightarrow>
        (\<exists>s'. record_trade s profitable = Inr s'
           \<and> balance s' = balance s
           \<and> peak_balance s' = max (peak_balance s) (balance s)
           \<and> max_drawdown s' =
               max (max_drawdown s) ((peak_balance s' - balance s') / peak_balance s'))"
  proof
    assume "max (peak_balance s) (balance s) \<noteq> 0"
    then obtain s' where s': "record_trade s profitable = Inr s'"
      using record_trade_returns by blast
    show "\<exists>s'. record_trade s profitable = Inr s'
           \<and> balance s' = balance s
           \<and> peak_balance s' = max (peak_balance s) (balance s)
           \<and> max_drawdown s' =
               max (max_drawdown s) ((peak_balance s' - balance s') / peak_balance s')"
      using s' record_trade_fields(1,5,6) [OF s'] by simp
  qed
  show ?thesis
    using mono apply_op_unchanged [of op s] rt
      process_fill_no_close [of s side fill_price fill_sz is_maker]
    by (simp add: drawdown_le_def record_trade_peak)
qed

theorem peak_and_drawdown_monotone_witness:
  "\<not> closes_trades (Apply_fee 5)
   \<and> peak_balance (apply_op
       \<lparr>initial_balance = 1000, balance = 900, max_leverage = 5, open_orders = [],
        open_positions = [(LONG, \<lparr>pos_side = LONG, pos_size = 10, entry_price = 100\<rparr>)],
        total_trades = 0, winning_trades = 0, total_fees_paid = 0, peak_balance = 1000,
        max_drawdown = 0\<rparr> (Apply_fee 5)) = 1000
   \<and> peak_balance (apply_op
       \<lparr>initial_balance = 1000, balance = 900, max_leverage = 5, open_orders = [],
        open_positions = [(LONG, \<lparr>pos_side = LONG, pos_size = 10, entry_price = 100\<rparr>)],
        total_trades = 0, winning_trades = 0, total_fees_paid = 0, peak_balance = 1000,
        max_drawdown = 0\<rparr> (Process_fill BUY 120 10 False)) = 1000
   \<and> (\<exists>s'. record_trade
       \<lparr>initial_balance = 1000, balance = 900, max_leverage = 5, open_orders = [],
        open_positions = [(LONG, \<lparr>pos_side = LONG, pos_size = 10, entry_price = 100\<rparr>)],
        total_trades = 0, winning_trades = 0, total_fees_paid = 0, peak_balance = 1000,
        max_drawdown = 0\<rparr> False = Inr s'
      \<and> peak_balance s' = 1000 \<and> max_drawdown s' = 1 / 10)
   \<and> 1000 \<le> peak_balance (foldl apply_op
       \<lparr>initial_balance = 1000, balance = 900, max_leverage = 5, open_orders = [],
        open_positions = [(LONG, \<lparr>pos_side = LONG, pos_size = 10, entry_price = 100\<rparr>)],
        total_trades = 0, winning_trades = 0, total_fees_paid = 0, peak_balance = 1000,
        max_drawdown = 0\<rparr>
       [Process_fill SELL 80 10 False, Apply_fee 5, Process_fill SELL 70 5 True,
        Process_fill BUY 60 5 False, Cancel_all_orders])
   \<and> 0 \<le> max_drawdown (foldl apply_op
       \<lparr>initial_balance = 1000, balance = 900, max_leverage = 5, open_orders = [],
        open_positions = [(LONG, \<lparr>pos_side = LONG, pos_size = 10, entry_price = 100\<rparr>)],
        total_trades = 0, winning_trades = 0, total_fees_paid = 0, peak_balance = 1000,
        max_drawdown = 0\<rparr>
       [Process_fill SELL 80 10 False, Apply_fee 5, Process_fill SELL 70 5 True,
        Process_fill BUY 60 5 False, Cancel_all_orders])"
  using
    peak_and_drawdown_monotone [of
      "\<lparr>initial_balance = 1000, balance = 900, max_leverage = 5, open_orders = [],
        open_positions = [(LONG, \<lparr>pos_side = LONG, pos_size = 10, entry_price = 100\<rparr>)],
        total_trades = 0, winning_trades = 0, total_fees_paid = 0, peak_balance = 1000,
        max_drawdown = 0\<rparr>"
      "[Process_fill SELL 80 10 False, Apply_fee 5, Process_fill SELL 70 5 True,
        Process_fill BUY 60 5 False, Cancel_all_orders]"
      "Apply_fee 5" BUY 120 10 False False]
  by (auto simp: get_position_def simp del: foldl_Cons)


section \<open>Latency and ledger mutation\<close>

text \<open>
  C4 as stated places the simulated latency sleep of a monitoring-loop fill before every
  ledger mutation for that fill. The monitoring loop does otherwise: with one resting BUY
  order that the book fills, the loop is suspended in the fill delay (250 ms here) with the
  order already removed and the taker fee 0.495 already taken from the balance.
\<close>

theorem monitor_fill_mutates_before_latency:
  "suspended_state
     (monitor_iteration
        (add_order (PortfolioTracker_init 1000 5)
           \<lparr>order_id = ''a'', order_side = BUY, order_size = 10, order_price = 99\<rparr>)
        \<lparr>buy_orders_list = [(98, 10)], sell_orders_list = [(99, 15)], mark_price = Some 98.5\<rparr>
        250 (\<lambda>i. 0))
     = Some ((PortfolioTracker_init 1000 5)\<lparr>balance := 999.505, total_fees_paid := 0.495\<rparr>)
   \<and> slept_seconds
     (monitor_iteration
        (add_order (PortfolioTracker_init 1000 5)
           \<lparr>order_id = ''a'', order_side = BUY, order_size = 10, order_price = 99\<rparr>)
        \<lparr>buy_orders_list = [(98, 10)], sell_orders_list = [(99, 15)], mark_price = Some 98.5\<rparr>
        250 (\<lambda>i. 0))
     = Some (fill_delay_seconds 250 0)
   \<and> suspended_state
     (monitor_iteration
        (add_order (PortfolioTracker_init 1000 5)
           \<lparr>order_id = ''a'', order_side = BUY, order_size = 10, order_price = 99\<rparr>)
        \<lparr>buy_orders_list = [(98, 10)], sell_orders_list = [(99, 15)], mark_price = Some 98.5\<rparr>
        250 (\<lambda>i. 0))
     \<noteq> Some (add_order (PortfolioTracker_init 1000 5)
           \<lparr>order_id = ''a'', order_side = BUY, order_size = 10, order_price = 99\<rparr>)"
  by (simp add: monitor_iteration_def best_price_def add_order_def PortfolioTracker_init_def
      check_limit_order_fill_def get_available_liquidity_def fill_order_def remove_order_def
      apply_fee_def calculate_fee_def TAKER_FEE_RATE_def MAKER_FEE_RATE_def Let_def)

text \<open>
  C4, amended. For every market order executed via \<^verbatim>\<open>open_market_order\<close>, the simulated
  latency sleep occurs after the market-data and margin decision and before any ledger
  mutation: when the order is rejected (or the margin check raises) the portfolio is left
  as it was, and otherwise the portfolio is still unchanged while the coroutine sleeps;
  the fill computation, the fee and the position update all happen after the sleep. For
  every fill processed by the loop of \<^verbatim>\<open>_monitor_orders\<close>, the latency sleep occurs after
  the fill decision, the removal of the order and the application of the fee, and before
  the position and balance update of \<^verbatim>\<open>_process_fill\<close>: while the coroutine sleeps the
  order is removed and the fee applied, and the positions and trade counters are as before.
\<close>

theorem latency_and_ledger_order:
  "(suspended_state (open_market_order s m fill_delay_ms jitter side sz is_reduce) = None \<longrightarrow>
      outcome_state (run_alone m (open_market_order s m fill_delay_ms jitter side sz is_reduce)) = s)
   \<and> (suspended_state (open_market_order s m fill_delay_ms jitter side sz is_reduce) \<noteq> None \<longrightarrow>
      suspended_state (open_market_order s m fill_delay_ms jitter side sz is_reduce) = Some s
      \<and> slept_seconds (open_market_order s m fill_delay_ms jitter side sz is_reduce) =
          Some (fill_delay_seconds fill_delay_ms jitter)
      \<and> (\<exists>bid_price ask_price.
            best_price (buy_orders_list m) = Some bid_price
            \<and> best_price (sell_orders_list m) = Some ask_price
            \<and> (\<forall>s' m'. resume (open_market_order s m fill_delay_ms jitter side sz is_reduce) s' m' =
                  market_order_after_delay side sz bid_price ask_price s' m')))
   \<and> suspended_state (fill_order s fill_delay_ms jitter order fill_price fill_sz is_maker) =
       Some (apply_fee (snd (remove_order s (order_id order)))
               (calculate_fee fill_price fill_sz is_maker))
   \<and> slept_seconds (fill_order s fill_delay_ms jitter order fill_price fill_sz is_maker) =
       Some (fill_delay_seconds fill_delay_ms jitter)
   \<and> suspended_state
       (process_fills ((order, fill_price, fill_sz, is_maker) # fills) fill_delay_ms jitters i s) =
       Some (apply_fee (snd (remove_order s (order_id order)))
               (calculate_fee fill_price fill_sz is_maker))
   \<and> open_orders (apply_fee (snd (remove_order s (order_id order)))
                     (calculate_fee fill_price fill_sz is_maker)) =
       AList.delete (order_id order) (open_orders s)
   \<and> balance (apply_fee (snd (remove_order s (order_id order)))
                 (calculate_fee fill_price fill_sz is_maker)) =
       balance s - calculate_fee fill_price fill_sz is_maker
   \<and> total_fees_paid (apply_fee (snd (remove_order s (order_id order)))
                         (calculate_fee fill_price fill_sz is_maker)) =
       total_fees_paid s + calculate_fee fill_price fill_sz is_maker
   \<and> open_positions (apply_fee (snd (remove_order s (order_id order)))
                        (calculate_fee fill_price fill_sz is_maker)) = open_positions s
   \<and> total_trades (apply_fee (snd (remove_order s (order_id order)))
                      (calculate_fee fill_price fill_sz is_maker)) = total_trades s
   \<and> (\<forall>s' m'. resume (fill_order s fill_delay_ms jitter order fill_price fill_sz is_maker) s' m' =
         (case process_fill s' (order_side order) fill_price fill_sz is_maker of
            Inl e \<Rightarrow> Return (Inl e)
          | Inr s3 \<Rightarrow> Return (Inr ((), s3))))"
proof -
  let ?c = "open_market_order s m fill_delay_ms jitter side sz is_reduce"
  have market: "(suspended_state ?c = None \<longrightarrow> outcome_state (run_alone m ?c) = s)
     \<and> (suspended_state ?c \<noteq> None \<longrightarrow>
        suspended_state ?c = Some s
        \<and> slept_seconds ?c = Some (fill_delay_seconds fill_delay_ms jitter)
        \<and> (\<exists>bid_price ask_price.
              best_price (buy_orders_list m) = Some bid_price
              \<and> best_price (sell_orders_list m) = Some ask_price
              \<and> (\<forall>s' m'. resume ?c s' m' =
                    market_order_after_delay side sz bid_price ask_price s' m')))"
    using open_market_order_shape [of s m fill_delay_ms jitter side sz is_reduce]
    by (auto simp: outcome_state_def)
  have monitor: "suspended_state
       (process_fills ((order, fill_price, fill_sz, is_maker) # fills) fill_delay_ms jitters i s) =
       Some (apply_fee (snd (remove_order s (order_id order)))
               (calculate_fee fill_price fill_sz is_maker))"
    by (simp add: suspended_state_then_do fill_order_suspended)
  have after: "\<forall>s' m'.
      resume (fill_order s fill_delay_ms jitter order fill_price fill_sz is_maker) s' m' =
         (case process_fill s' (order_side order) fill_price fill_sz is_maker of
            Inl e \<Rightarrow> Return (Inl e)
          | Inr s3 \<Rightarrow> Return (Inr ((), s3)))"
    by (simp add: fill_order_def fill_order_after_delay_def Let_def)
  have slept: "slept_seconds (fill_order s fill_delay_ms jitter order fill_price fill_sz is_maker) =
       Some (fill_delay_seconds fill_delay_ms jitter)"
    by (simp add: fill_order_def Let_def)
  show ?thesis
    using market monitor after slept
    by (simp add: fill_order_suspended apply_fee_def remove_order_def)
qed


theorem latency_and_ledger_order_witness:
  "suspended_state
     (open_market_order (PortfolioTracker_init 1000 5)
        \<lparr>buy_orders_list = [(99, 20)], sell_orders_list = [(100, 20)], mark_price = None\<rparr>
        100 0 BUY 1 False) \<noteq> None
   \<and> suspended_state
     (open_market_order (PortfolioTracker_init 1000 5)
        \<lparr>buy_orders_list = [(99, 20)], sell_orders_list = [(100, 20)], mark_price = None\<rparr>
        100 0 BUY 1 False) = Some (PortfolioTracker_init 1000 5)
   \<and> slept_seconds
     (open_market_order (PortfolioTracker_init 1000 5)
        \<lparr>buy_orders_list = [(99, 20)], sell_orders_list = [(100, 20)], mark_price = None\<rparr>
        100 0 BUY 1 False) = Some (1 / 10)
   \<and> suspended_state
     (open_market_order (PortfolioTracker_init 1000 5)
        \<lparr>buy_orders_list = [(99, 20)], sell_orders_list = [(100, 20)], mark_price = None\<rparr>
        100 0 BUY 1000 False) = None
   \<and> outcome_state (run_alone
        \<lparr>buy_orders_list = [(99, 20)], sell_orders_list = [(100, 20)], mark_price = None\<rparr>
        (open_market_order (PortfolioTracker_init 1000 5)
           \<lparr>buy_orders_list = [(99, 20)], sell_orders_list = [(100, 20)], mark_price = None\<rparr>
           100 0 BUY 1000 False)) = PortfolioTracker_init 1000 5
   \<and> suspended_state
     (fill_order
        (add_order (PortfolioTracker_init 1000 5)
           \<lparr>order_id = ''a'', order_side = BUY, order_size = 10, order_price = 99\<rparr>)
        100 0 \<lparr>order_id = ''a'', order_side = BUY, order_size = 10, order_price = 99\<rparr>
        99 10 False)
     = Some ((PortfolioTracker_init 1000 5)\<lparr>balance := 999.505, total_fees_paid := 0.495\<rparr>)"
proof -
  let ?m = "\<lparr>buy_orders_list = [(99, 20)], sell_orders_list = [(100, 20)], mark_price = None\<rparr>"
  let ?s = "PortfolioTracker_init 1000 5"
  let ?order = "\<lparr>order_id = ''a'', order_side = BUY, order_size = 10, order_price = 99\<rparr>"
  have accepted: "suspended_state (open_market_order ?s ?m 100 0 BUY 1 False) \<noteq> None"
    by (simp add: open_market_order_def best_price_def can_open_position_def
        PortfolioTracker_init_def get_equity_def get_unrealized_pnl_def
        get_total_position_value_def)
  have rejected: "suspended_state (open_market_order ?s ?m 100 0 BUY 1000 False) = None"
    by (simp add: open_market_order_def best_price_def can_open_position_def
        PortfolioTracker_init_def get_equity_def get_unrealized_pnl_def
        get_total_position_value_def)
  have before: "apply_fee (snd (remove_order (add_order ?s ?order) (order_id ?order)))
      (calculate_fee 99 10 False) = ?s\<lparr>balance := 999.505, total_fees_paid := 0.495\<rparr>"
    by (simp add: add_order_def remove_order_def apply_fee_def calculate_fee_def
        TAKER_FEE_RATE_def PortfolioTracker_init_def)
  show ?thesis
    using accepted rejected before
      latency_and_ledger_order [where s = ?s and m = ?m and fill_delay_ms = 100 and jitter = 0
        and side = BUY and sz = 1 and is_reduce = False]
      latency_and_ledger_order [where s = ?s and m = ?m and fill_delay_ms = 100 and jitter = 0
        and side = BUY and sz = 1000 and is_reduce = False]
      latency_and_ledger_order [where s = "add_order ?s ?order" and fill_delay_ms = 100
        and jitter = 0 and order = ?order and fill_price = 99 and fill_sz = 10
        and is_maker = False]
    by (simp add: fill_delay_seconds_def simulate_fill_delay_def)
qed


end
